theory Spec2Isabelle
  imports Complex_Main "HOL-Library.Word"
begin

unbundle bit_operations_syntax

section \<open>Python values used by horoscope\_mailer.py\<close>

text \<open>
  A Python \<open>str\<close> is a sequence of Unicode code points. The program's texts are Telugu,
  so a string is modelled as the list of its code points; \<open>ascii\<close> embeds a literal
  whose characters are all ASCII.
\<close>

type_synonym ustr = "nat list"

definition ascii :: "string \<Rightarrow> ustr" where
  "ascii s = map of_char s"

text \<open>The exceptions the modelled code can raise.\<close>

datatype py_error = KeyError | IndexError | ValueError | ZeroDivisionError

text \<open>Sequencing: an exception raised by the first computation ends the call.\<close>

definition bind_err :: "py_error + 'a \<Rightarrow> ('a \<Rightarrow> py_error + 'b) \<Rightarrow> py_error + 'b" where
  "bind_err m f = (case m of Inl e \<Rightarrow> Inl e | Inr v \<Rightarrow> f v)"

text \<open>\<open>xs[i]\<close>: a negative index counts from the end; out of range raises IndexError.\<close>

definition list_getitem :: "'a list \<Rightarrow> int \<Rightarrow> py_error + 'a" where
  "list_getitem xs i =
     (if 0 \<le> i \<and> i < int (length xs) then Inr (xs ! nat i)
      else if i < 0 \<and> - int (length xs) \<le> i then Inr (xs ! nat (int (length xs) + i))
      else Inl IndexError)"

text \<open>\<open>d[k]\<close> raises KeyError on a missing key; \<open>d.get(k, default)\<close> does not.\<close>

definition dict_getitem :: "('k \<times> 'v) list \<Rightarrow> 'k \<Rightarrow> py_error + 'v" where
  "dict_getitem d k = (case map_of d k of None \<Rightarrow> Inl KeyError | Some v \<Rightarrow> Inr v)"

definition dict_get :: "('k \<times> 'v) list \<Rightarrow> 'k \<Rightarrow> 'v \<Rightarrow> 'v" where
  "dict_get d k dflt = (case map_of d k of None \<Rightarrow> dflt | Some v \<Rightarrow> v)"

text \<open>\<open>a % b\<close> on integers: the result has the sign of \<open>b\<close>; \<open>b = 0\<close> raises.\<close>

definition py_mod :: "int \<Rightarrow> int \<Rightarrow> py_error + int" where
  "py_mod a b = (if b = 0 then Inl ZeroDivisionError else Inr (a mod b))"

text \<open>\<open>xs.index(x)\<close>: the position of the first occurrence, ValueError if there is none.\<close>

fun list_index :: "'a list \<Rightarrow> 'a \<Rightarrow> py_error + int" where
  "list_index [] x = Inl ValueError"
| "list_index (y # ys) x =
     (if y = x then Inr 0
      else case list_index ys x of Inl e \<Rightarrow> Inl e | Inr i \<Rightarrow> Inr (i + 1))"

fun startswith :: "'a list \<Rightarrow> 'a list \<Rightarrow> bool" where
  "startswith s [] = True"
| "startswith [] (p # ps) = False"
| "startswith (c # cs) (p # ps) = (c = p \<and> startswith cs ps)"

text \<open>\<open>sub in s\<close> on strings is the substring test.\<close>

fun str_contains :: "'a list \<Rightarrow> 'a list \<Rightarrow> bool" where
  "str_contains sub [] = (sub = [])"
| "str_contains sub (c # cs) = (startswith (c # cs) sub \<or> str_contains sub cs)"

text \<open>\<open>sep.join(parts)\<close>.\<close>

fun str_join :: "ustr \<Rightarrow> ustr list \<Rightarrow> ustr" where
  "str_join sep [] = []"
| "str_join sep [p] = p"
| "str_join sep (p # q # ps) = p @ sep @ str_join sep (q # ps)"

text \<open>
  \<open>template.format(area=v)\<close>. The templates of the program hold no replacement field
  other than \<open>{area}\<close> and no doubled brace, so formatting is the substitution of
  every \<open>{area}\<close> by \<open>v\<close>.
\<close>

fun format_area :: "ustr \<Rightarrow> ustr \<Rightarrow> ustr" where
  "format_area [] v = []"
| "format_area (c # cs) v =
     (if startswith (c # cs) (ascii ''{area}'') then v @ format_area (drop 5 cs) v
      else c # format_area cs v)"

text \<open>\<open>str(n)\<close> for an integer, and zero padding to a width as \<open>%04d\<close> does.\<close>

fun digits_of :: "nat \<Rightarrow> ustr" where
  "digits_of n = (if n < 10 then [48 + n] else digits_of (n div 10) @ [48 + n mod 10])"

definition str_int :: "int \<Rightarrow> ustr" where
  "str_int i = (if i < 0 then 45 # digits_of (nat (- i)) else digits_of (nat i))"

definition zero_pad :: "nat \<Rightarrow> int \<Rightarrow> ustr" where
  "zero_pad w i =
     (if i < 0 then 45 # replicate (w - 1 - length (digits_of (nat (- i)))) 48 @ digits_of (nat (- i))
      else replicate (w - length (digits_of (nat i))) 48 @ digits_of (nat i))"

subsection \<open>Floating point\<close>

text \<open>
  A Python \<open>float\<close> is an IEEE 754 double. The value of a double is a rational number;
  \<open>double_of_rat x\<close> is the double nearest to \<open>x\<close> (ties to the even significand) for
  \<open>0 \<le> x < 2\<close> above the subnormal range, which covers every float of the program: a
  decimal literal denotes the double nearest to it, and \<open>a / b\<close> on integers is the
  double nearest to the quotient. \<open>binade fuel x\<close> counts the doublings that bring
  \<open>x\<close> to \<open>[1, 2)\<close>; the exponent of a normal double is at least \<open>-1022\<close>.
\<close>

fun binade :: "nat \<Rightarrow> rat \<Rightarrow> nat" where
  "binade 0 x = 0"
| "binade (Suc fuel) x = (if 1 \<le> x then 0 else Suc (binade fuel (2 * x)))"

definition round_half_even :: "rat \<Rightarrow> int" where
  "round_half_even r =
     (let f = \<lfloor>r\<rfloor>; d = r - of_int f
      in if d < 1 / 2 then f else if 1 / 2 < d then f + 1 else if even f then f else f + 1)"

definition double_of_rat :: "rat \<Rightarrow> rat" where
  "double_of_rat x =
     (if x = 0 then 0
      else let n = binade 1022 x
           in of_int (round_half_even (x * 2 ^ (n + 52))) / 2 ^ (n + 52))"

definition py_truediv :: "int \<Rightarrow> int \<Rightarrow> rat" where
  "py_truediv a b = double_of_rat (of_int a / of_int b)"

subsection \<open>datetime.date\<close>

text \<open>
  The library's \<open>date\<close> is a year, a month and a day of the proleptic Gregorian
  calendar; its constructor accepts exactly the \<open>valid_date\<close> triples. The ordinal of a
  date (1 for 0001-01-01), the weekday (Monday is 0), the difference of two dates in days
  and the ISO form \<open>YYYY-MM-DD\<close> follow the library.
\<close>

record date =
  year :: int
  month :: int
  day :: int

definition is_leap :: "int \<Rightarrow> bool" where
  "is_leap y = (y mod 4 = 0 \<and> (y mod 100 \<noteq> 0 \<or> y mod 400 = 0))"

definition days_in_month :: "int \<Rightarrow> int \<Rightarrow> int" where
  "days_in_month y m =
     (if m = 2 \<and> is_leap y then 29
      else [31, 28, 31, 30, 31, 30, 31, 31, 30, 31, 30, 31] ! nat (m - 1))"

definition valid_date :: "date \<Rightarrow> bool" where
  "valid_date d =
     (1 \<le> year d \<and> year d \<le> 9999 \<and> 1 \<le> month d \<and> month d \<le> 12 \<and>
      1 \<le> day d \<and> day d \<le> days_in_month (year d) (month d))"

definition days_before_year :: "int \<Rightarrow> int" where
  "days_before_year y = (y - 1) * 365 + (y - 1) div 4 - (y - 1) div 100 + (y - 1) div 400"

definition days_before_month :: "int \<Rightarrow> int \<Rightarrow> int" where
  "days_before_month y m =
     [0, 31, 59, 90, 120, 151, 181, 212, 243, 273, 304, 334] ! nat (m - 1)
       + (if 2 < m \<and> is_leap y then 1 else 0)"

definition toordinal :: "date \<Rightarrow> int" where
  "toordinal d = days_before_year (year d) + days_before_month (year d) (month d) + day d"

definition date_weekday :: "date \<Rightarrow> int" where
  "date_weekday d = (toordinal d + 6) mod 7"

text \<open>\<open>(a - b).days\<close>\<close>

definition days_between :: "date \<Rightarrow> date \<Rightarrow> int" where
  "days_between a b = toordinal a - toordinal b"

text \<open>\<open>str(d)\<close>\<close>

definition str_date :: "date \<Rightarrow> ustr" where
  "str_date d = zero_pad 4 (year d) @ [45] @ zero_pad 2 (month d) @ [45] @ zero_pad 2 (day d)"

subsection \<open>str.encode and hashlib.md5\<close>

type_synonym byte = "8 word"
type_synonym u32 = "32 word"

text \<open>UTF-8, the default of \<open>str.encode\<close>.\<close>

definition utf8_char :: "nat \<Rightarrow> byte list" where
  "utf8_char c =
     (if c < 0x80 then [word_of_nat c]
      else if c < 0x800 then [word_of_nat (0xC0 + c div 64), word_of_nat (0x80 + c mod 64)]
      else if c < 0x10000 then
        [word_of_nat (0xE0 + c div 4096), word_of_nat (0x80 + c div 64 mod 64),
         word_of_nat (0x80 + c mod 64)]
      else
        [word_of_nat (0xF0 + c div 262144), word_of_nat (0x80 + c div 4096 mod 64),
         word_of_nat (0x80 + c div 64 mod 64), word_of_nat (0x80 + c mod 64)])"

definition encode :: "ustr \<Rightarrow> byte list" where
  "encode s = concat (map utf8_char s)"

text \<open>MD5 as RFC 1321 defines it: the sine table, the per-round rotations, the padding
  to a multiple of 64 bytes with the bit length, and the four rounds of sixteen steps on
  each block.\<close>

definition md5_K :: "u32 list" where
  "md5_K =
    [0xd76aa478, 0xe8c7b756, 0x242070db, 0xc1bdceee,
     0xf57c0faf, 0x4787c62a, 0xa8304613, 0xfd469501,
     0x698098d8, 0x8b44f7af, 0xffff5bb1, 0x895cd7be,
     0x6b901122, 0xfd987193, 0xa679438e, 0x49b40821,
     0xf61e2562, 0xc040b340, 0x265e5a51, 0xe9b6c7aa,
     0xd62f105d, 0x02441453, 0xd8a1e681, 0xe7d3fbc8,
     0x21e1cde6, 0xc33707d6, 0xf4d50d87, 0x455a14ed,
     0xa9e3e905, 0xfcefa3f8, 0x676f02d9, 0x8d2a4c8a,
     0xfffa3942, 0x8771f681, 0x6d9d6122, 0xfde5380c,
     0xa4beea44, 0x4bdecfa9, 0xf6bb4b60, 0xbebfbc70,
     0x289b7ec6, 0xeaa127fa, 0xd4ef3085, 0x04881d05,
     0xd9d4d039, 0xe6db99e5, 0x1fa27cf8, 0xc4ac5665,
     0xf4292244, 0x432aff97, 0xab9423a7, 0xfc93a039,
     0x655b59c3, 0x8f0ccc92, 0xffeff47d, 0x85845dd1,
     0x6fa87e4f, 0xfe2ce6e0, 0xa3014314, 0x4e0811a1,
     0xf7537e82, 0xbd3af235, 0x2ad7d2bb, 0xeb86d391]"

definition md5_s :: "nat list" where
  "md5_s =
    [7, 12, 17, 22, 7, 12, 17, 22, 7, 12, 17, 22, 7, 12, 17, 22,
     5, 9, 14, 20, 5, 9, 14, 20, 5, 9, 14, 20, 5, 9, 14, 20,
     4, 11, 16, 23, 4, 11, 16, 23, 4, 11, 16, 23, 4, 11, 16, 23,
     6, 10, 15, 21, 6, 10, 15, 21, 6, 10, 15, 21, 6, 10, 15, 21]"

definition rotl32 :: "u32 \<Rightarrow> nat \<Rightarrow> u32" where
  "rotl32 x n = push_bit n x OR drop_bit (32 - n) x"

definition md5_pad :: "byte list \<Rightarrow> byte list" where
  "md5_pad msg =
     (let n = length msg;
          z = (55 + 64 - n mod 64) mod 64;
          bits = (word_of_nat n * 8 :: 64 word)
      in msg @ [0x80] @ replicate z 0 @ map (\<lambda>i. ucast (drop_bit (8 * i) bits)) [0..<8])"

definition le32 :: "byte list \<Rightarrow> u32" where
  "le32 bs = foldr (\<lambda>b acc. ucast b OR push_bit 8 acc) bs 0"

fun chunks :: "nat \<Rightarrow> 'a list \<Rightarrow> 'a list list" where
  "chunks n [] = []"
| "chunks n (x # xs) =
     (if n = 0 then [x # xs] else take n (x # xs) # chunks n (drop n (x # xs)))"

definition md5_step :: "u32 list \<Rightarrow> u32 \<times> u32 \<times> u32 \<times> u32 \<Rightarrow> nat \<Rightarrow> u32 \<times> u32 \<times> u32 \<times> u32" where
  "md5_step M st i =
     (case st of (A, B, C, D) \<Rightarrow>
        let (F, g) =
              (if i < 16 then ((B AND C) OR (NOT B AND D), i)
               else if i < 32 then ((D AND B) OR (NOT D AND C), (5 * i + 1) mod 16)
               else if i < 48 then (B XOR C XOR D, (3 * i + 5) mod 16)
               else (C XOR (B OR NOT D), (7 * i) mod 16));
            F' = F + A + md5_K ! i + M ! g
        in (D, B + rotl32 F' (md5_s ! i), B, C))"

definition md5_block :: "u32 \<times> u32 \<times> u32 \<times> u32 \<Rightarrow> byte list \<Rightarrow> u32 \<times> u32 \<times> u32 \<times> u32" where
  "md5_block h blk =
     (case h of (a0, b0, c0, d0) \<Rightarrow>
        case foldl (md5_step (map le32 (chunks 4 blk))) h [0..<64] of
          (A, B, C, D) \<Rightarrow> (a0 + A, b0 + B, c0 + C, d0 + D))"

definition bytes_le32 :: "u32 \<Rightarrow> byte list" where
  "bytes_le32 w = map (\<lambda>i. ucast (drop_bit (8 * i) w)) [0..<4]"

definition md5 :: "byte list \<Rightarrow> byte list" where
  "md5 msg =
     (case foldl md5_block (0x67452301, 0xefcdab89, 0x98badcfe, 0x10325476)
             (chunks 64 (md5_pad msg)) of
        (a, b, c, d) \<Rightarrow> bytes_le32 a @ bytes_le32 b @ bytes_le32 c @ bytes_le32 d)"

definition hex_digit :: "nat \<Rightarrow> nat" where
  "hex_digit n = ascii ''0123456789abcdef'' ! n"

definition hexdigest :: "byte list \<Rightarrow> ustr" where
  "hexdigest bs = concat (map (\<lambda>b. [hex_digit (unat b div 16), hex_digit (unat b mod 16)]) bs)"

text \<open>\<open>int(s, 16)\<close> on a string of hexadecimal digits; anything else, also the empty
  string, raises ValueError.\<close>

definition hex_value :: "nat \<Rightarrow> int option" where
  "hex_value c =
     (if 48 \<le> c \<and> c \<le> 57 then Some (int c - 48)
      else if 97 \<le> c \<and> c \<le> 102 then Some (int c - 87)
      else if 65 \<le> c \<and> c \<le> 70 then Some (int c - 55)
      else None)"

fun int_base16_acc :: "int \<Rightarrow> ustr \<Rightarrow> py_error + int" where
  "int_base16_acc acc [] = Inr acc"
| "int_base16_acc acc (c # cs) =
     (case hex_value c of None \<Rightarrow> Inl ValueError
      | Some v \<Rightarrow> int_base16_acc (16 * acc + v) cs)"

definition int_base16 :: "ustr \<Rightarrow> py_error + int" where
  "int_base16 s = (if s = [] then Inl ValueError else int_base16_acc 0 s)"

section \<open>PanchangCalculator\<close>

text \<open>The tables built by \<open>__init__\<close> (source lines 21 to 39); no method assigns to them.\<close>

definition tithis :: "ustr list" where
  "tithis =
    [[3114, 3134, 3105, 3149, 3119, 3118, 3135],
      [3125, 3135, 3110, 3135, 3119],
      [3108, 3110, 3135, 3119],
      [3098, 3125, 3135, 3108, 3135],
      [3114, 3074, 3098, 3118, 3135],
      [3127, 3127, 3149, 3103, 3135],
      [3128, 3114, 3149, 3108, 3118, 3135],
      [3077, 3127, 3149, 3103, 3118, 3135],
      [3112, 3125, 3118, 3135],
      [3110, 3126, 3118, 3135],
      [3087, 3093, 3134, 3110, 3126, 3135],
      [3110, 3149, 3125, 3134, 3110, 3126, 3135],
      [3108, 3149, 3120, 3119, 3147, 3110, 3126, 3135],
      [3098, 3108, 3137, 3120, 3149, 3110, 3126, 3135],
      [3114, 3148, 3120, 3149, 3107, 3118, 3135, 47, 3077, 3118, 3134, 3125, 3134, 3128, 3149,
        3119]]"

definition nakshatras :: "ustr list" where
  "nakshatras =
    [[3077, 3126, 3149, 3125, 3135, 3112, 3135],
      [3117, 3120, 3107, 3135],
      [3093, 3139, 3108, 3149, 3108, 3135, 3093],
      [3120, 3147, 3129, 3135, 3107, 3135],
      [3118, 3139, 3095, 3126, 3135, 3120],
      [3078, 3120, 3137, 3110, 3149, 3120],
      [3114, 3137, 3112, 3120, 3149, 3125, 3128, 3137],
      [3114, 3137, 3127, 3149, 3119, 3118, 3135],
      [3078, 3126, 3149, 3122, 3143, 3127],
      [3118, 3094],
      [3114, 3137, 3116, 3149, 3116],
      [3081, 3108, 3149, 3108, 3120],
      [3129, 3128, 3149, 3108],
      [3098, 3135, 3108, 3149, 3108],
      [3128, 3149, 3125, 3134, 3108, 3135],
      [3125, 3135, 3126, 3134, 3094],
      [3077, 3112, 3138, 3120, 3134, 3111],
      [3100, 3149, 3119, 3143, 3127, 3149, 3104],
      [3118, 3138, 3122],
      [3114, 3138, 3120, 3149, 3125, 3134, 3127, 3134, 3106],
      [3081, 3108, 3149, 3108, 3120, 3134, 3127, 3134, 3106],
      [3126, 3149, 3120, 3125, 3107, 3074],
      [3111, 3112, 3135, 3127, 3149, 3104],
      [3126, 3108, 3117, 3135, 3127, 3074],
      [3114, 3138, 3120, 3149, 3125, 3134, 3117, 3134, 3110, 3149, 3120],
      [3081, 3108, 3149, 3108, 3120, 3134, 3117, 3134, 3110, 3149, 3120],
      [3120, 3143, 3125, 3108, 3135]]"

definition weekdays_telugu :: "(int \<times> ustr) list" where
  "weekdays_telugu =
    [(0, [3128, 3147, 3118, 3125, 3134, 3120, 3074]),
      (1, [3118, 3074, 3095, 3123, 3125, 3134, 3120, 3074]),
      (2, [3116, 3137, 3111, 3125, 3134, 3120, 3074]),
      (3, [3095, 3137, 3120, 3137, 3125, 3134, 3120, 3074]),
      (4, [3126, 3137, 3093, 3149, 3120, 3125, 3134, 3120, 3074]),
      (5, [3126, 3112, 3135, 3125, 3134, 3120, 3074]),
      (6, [3078, 3110, 3135, 3125, 3134, 3120, 3074])]"

definition reference_date :: date where
  "reference_date = \<lparr>year = 2024, month = 1, day = 11\<rparr>"

definition epoch_date :: date where
  "epoch_date = \<lparr>year = 2000, month = 1, day = 1\<rparr>"

text \<open>The locals \<open>lunar_day\<close> and \<open>tithi_index\<close> of \<open>get_tithi\<close>.\<close>

definition lunar_day :: "date \<Rightarrow> int" where
  "lunar_day d = days_between d reference_date mod 30"

definition tithi_index :: "date \<Rightarrow> int" where
  "tithi_index d = lunar_day d mod 15"

definition get_tithi :: "date \<Rightarrow> py_error + ustr" where
  "get_tithi d =
     (let paksha = (if lunar_day d < 15 then [3126, 3137, 3093, 3149, 3122, 32, 3114, 3093, 3149,
       3127, 3074]
                    else [3093, 3139, 3127, 3149, 3107, 32, 3114, 3093, 3149, 3127, 3074])
      in bind_err (list_getitem tithis (tithi_index d)) (\<lambda>t. Inr (paksha @ [32] @ t)))"

definition nakshatra_index :: "date \<Rightarrow> int" where
  "nakshatra_index d = (days_between d epoch_date * 13) mod 27"

definition get_nakshatra :: "date \<Rightarrow> py_error + ustr" where
  "get_nakshatra d = list_getitem nakshatras (nakshatra_index d)"

text \<open>The local \<open>phase\<close> of \<open>get_moon_phase\<close>, a float.\<close>

definition phase :: "date \<Rightarrow> rat" where
  "phase d = py_truediv (days_between d reference_date mod 30) 30"

definition moon_new :: ustr where
  "moon_new = [3077, 3118, 3134, 3125, 3134, 3128, 3149, 3119, 32, 40, 78, 101, 119, 32, 77, 111,
    111, 110, 41]"

definition moon_full :: ustr where
  "moon_full = [3114, 3138, 3120, 3149, 3108, 3135, 32, 3098, 3074, 3110, 3149, 3120, 3137, 3105,
    3137, 32, 40, 70, 117, 108, 108, 32, 77, 111, 111, 110, 41]"

definition moon_waxing :: ustr where
  "moon_waxing = [3125, 3120, 3149, 3111, 3118, 3134, 3112, 32, 3098, 3074, 3110, 3149, 3120, 3137,
    3105, 3137, 32, 40, 87, 97, 120, 105, 110, 103, 41]"

definition moon_waning :: ustr where
  "moon_waning = [3093, 3149, 3127, 3136, 3107, 3135, 3074, 3098, 3137, 32, 3098, 3074, 3110, 3149,
    3120, 3137, 3105, 3137, 32, 40, 87, 97, 110, 105, 110, 103, 41]"

definition get_moon_phase :: "date \<Rightarrow> ustr" where
  "get_moon_phase d =
     (if phase d < double_of_rat (3 / 100) \<or> phase d > double_of_rat (97 / 100) then moon_new
      else if double_of_rat (22 / 100) < phase d \<and> phase d < double_of_rat (28 / 100) then moon_full
      else if phase d < double_of_rat (25 / 100) then moon_waxing
      else moon_waning)"

text \<open>
  The bands of the moon phase as the specification words them, on the exact quotient
  \<open>p\<close> of the day offset by 30; \<open>get_moon_phase\<close> above is the code, on floats.
\<close>

definition moon_phase_bands :: "rat \<Rightarrow> ustr" where
  "moon_phase_bands p =
     (if p < 3 / 100 \<or> p > 97 / 100 then moon_new
      else if 22 / 100 < p \<and> p < 28 / 100 then moon_full
      else if p < 25 / 100 then moon_waxing
      else moon_waning)"

definition get_weekday_telugu :: "date \<Rightarrow> py_error + ustr" where
  "get_weekday_telugu d = dict_getitem weekdays_telugu (date_weekday d)"

section \<open>DynamicPredictionEngine\<close>

record rashi_info =
  element :: ustr
  lord :: ustr
  nature :: ustr
  favorable_days :: "int list"
  areas :: "ustr list"

definition rashi_base :: "(ustr \<times> rashi_info) list" where
  "rashi_base =
    [([3125, 3139, 3127, 3117, 3074],
        \<lparr>element = ascii ''earth'', lord = ascii ''venus'', nature = ascii ''fixed'',
         favorable_days = [4, 5],
         areas = [ascii ''finance'', ascii ''family'', ascii ''comfort'', ascii ''relationships'']\<rparr>),
      ([3128, 3135, 3074, 3129, 3074],
        \<lparr>element = ascii ''fire'', lord = ascii ''sun'', nature = ascii ''fixed'',
         favorable_days = [6],
         areas = [ascii ''leadership'', ascii ''career'', ascii ''recognition'', ascii ''authority'']\<rparr>),
      ([3111, 3112, 3137, 3128, 3149, 3128, 3137],
        \<lparr>element = ascii ''fire'', lord = ascii ''jupiter'', nature = ascii ''dual'',
         favorable_days = [3],
         areas = [ascii ''education'', ascii ''travel'', ascii ''spirituality'', ascii ''fortune'']\<rparr>),
      ([3118, 3143, 3127, 3074],
        \<lparr>element = ascii ''fire'', lord = ascii ''mars'', nature = ascii ''movable'',
         favorable_days = [1, 6],
         areas = [ascii ''action'', ascii ''courage'', ascii ''initiative'', ascii ''competition'']\<rparr>),
      ([3118, 3135, 3109, 3137, 3112, 3074],
        \<lparr>element = ascii ''air'', lord = ascii ''mercury'', nature = ascii ''dual'',
         favorable_days = [2],
         areas = [ascii ''communication'', ascii ''learning'', ascii ''networking'', ascii ''versatility'']\<rparr>),
      ([3093, 3120, 3149, 3093, 3134, 3103, 3093, 3074],
        \<lparr>element = ascii ''water'', lord = ascii ''moon'', nature = ascii ''movable'',
         favorable_days = [0],
         areas = [ascii ''emotions'', ascii ''home'', ascii ''family'', ascii ''nurturing'']\<rparr>),
      ([3093, 3112, 3149, 3119],
        \<lparr>element = ascii ''earth'', lord = ascii ''mercury'', nature = ascii ''dual'',
         favorable_days = [2],
         areas = [ascii ''service'', ascii ''health'', ascii ''analysis'', ascii ''perfection'']\<rparr>),
      ([3108, 3137, 3122],
        \<lparr>element = ascii ''air'', lord = ascii ''venus'', nature = ascii ''movable'',
         favorable_days = [4],
         areas = [ascii ''relationships'', ascii ''balance'', ascii ''art'', ascii ''harmony'']\<rparr>),
      ([3125, 3139, 3126, 3149, 3098, 3135, 3093, 3074],
        \<lparr>element = ascii ''water'', lord = ascii ''mars'', nature = ascii ''fixed'',
         favorable_days = [1],
         areas = [ascii ''transformation'', ascii ''intensity'', ascii ''secrets'', ascii ''power'']\<rparr>),
      ([3118, 3093, 3120, 3074],
        \<lparr>element = ascii ''earth'', lord = ascii ''saturn'', nature = ascii ''movable'',
         favorable_days = [5],
         areas = [ascii ''discipline'', ascii ''career'', ascii ''ambition'', ascii ''responsibility'']\<rparr>),
      ([3093, 3137, 3074, 3117, 3074],
        \<lparr>element = ascii ''air'', lord = ascii ''saturn'', nature = ascii ''fixed'',
         favorable_days = [5],
         areas = [ascii ''innovation'', ascii ''social'', ascii ''freedom'', ascii ''uniqueness'']\<rparr>),
      ([3118, 3136, 3112, 3074],
        \<lparr>element = ascii ''water'', lord = ascii ''jupiter'', nature = ascii ''dual'',
         favorable_days = [3],
         areas = [ascii ''spirituality'', ascii ''compassion'', ascii ''intuition'', ascii ''dreams'']\<rparr>)]"

definition prediction_templates :: "(ustr \<times> ustr list) list" where
  "prediction_templates =
    [(ascii ''favorable'',
      [[3080, 3120, 3147, 3100, 3137, 32, 3118, 3136, 3093, 3137, 32, 3077, 3112, 3137, 3093, 3138,
        3122, 3118, 3144, 3112, 32, 3120, 3147, 3100, 3137, 46, 32, 123, 97, 114, 101, 97, 125,
          3122, 3147, 32, 3118, 3074, 3098, 3135, 32, 3114, 3137, 3120, 3147, 3095, 3108, 3135, 32,
            3081, 3074, 3103, 3137, 3074, 3110, 3135, 46],
      [123, 97, 114, 101, 97, 125, 32, 3125, 3135, 3127, 3119, 3134, 3122, 3122, 3147, 32, 3125,
        3135, 3100, 3119, 3074, 32, 3128, 3134, 3111, 3135, 3074, 3098, 3143, 32, 3077, 3125, 3093,
          3134, 3126, 3134, 3122, 3137, 32, 3081, 3112, 3149, 3112, 3134, 3119, 3135, 46],
      [3080, 3120, 3147, 3100, 3137, 32, 123, 97, 114, 101, 97, 125, 3093, 3137, 32, 3128, 3074,
        3116, 3074, 3111, 3135, 3074, 3098, 3135, 3112, 32, 3093, 3134, 3120, 3149, 3119, 3093,
          3149, 3120, 3118, 3134, 3122, 3137, 32, 3126, 3137, 3117, 3115, 3122, 3135, 3108, 3134,
            3122, 3135, 3128, 3149, 3108, 3134, 3119, 3135, 46]]),
     (ascii ''neutral'',
      [[123, 97, 114, 101, 97, 125, 32, 3125, 3135, 3127, 3119, 3134, 3122, 3122, 3147, 32, 3128,
        3134, 3111, 3134, 3120, 3107, 32, 3114, 3120, 3135, 3128, 3149, 3109, 3135, 3108, 3137,
          3122, 3137, 32, 3081, 3074, 3103, 3134, 3119, 3135, 46, 32, 3100, 3134, 3095, 3149, 3120,
            3108, 3149, 3108, 3095, 3134, 32, 3118, 3137, 3074, 3110, 3137, 3093, 3137, 32, 3128,
              3134, 3095, 3074, 3105, 3135, 46],
      [3080, 3120, 3147, 3100, 3137, 32, 123, 97, 114, 101, 97, 125, 3122, 3147, 32, 3091, 3114,
        3135, 3093, 32, 3114, 3134, 3103, 3135, 3074, 3098, 3074, 3105, 3135, 46, 32, 3118, 3074,
          3098, 3135, 32, 3115, 3122, 3135, 3108, 3134, 3122, 3137, 32, 3120, 3134, 3125, 3146,
            3098, 3149, 3098, 3137, 46]]),
     (ascii ''challenging'',
      [[123, 97, 114, 101, 97, 125, 32, 3125, 3135, 3127, 3119, 3134, 3122, 3122, 3147, 32, 3100,
        3134, 3095, 3149, 3120, 3108, 3149, 3108, 32, 3077, 3125, 3128, 3120, 3074, 46, 32, 3108,
          3149, 3125, 3120, 3114, 3105, 3093, 3137, 3074, 3105, 3134, 32, 3112, 3135, 3120, 3149,
            3107, 3119, 3134, 3122, 3137, 32, 3108, 3136, 3128, 3137, 3093, 3147, 3074, 3105, 3135,
              46],
      [3080, 3120, 3147, 3100, 3137, 32, 123, 97, 114, 101, 97, 125, 3122, 3147, 32, 3077, 3105,
        3149, 3105, 3074, 3093, 3137, 3122, 3137, 32, 3086, 3110, 3137, 3120, 3125, 3146, 3098,
          3149, 3098, 3137, 46, 32, 3111, 3144, 3120, 3149, 3119, 3074, 3095, 3134, 32, 3086, 3110,
            3137, 3120, 3149, 3093, 3147, 3074, 3105, 3135, 46]])]"

text \<open>The key of the default entry in \<open>self.rashi_base.get(rashi, self.rashi_base[...])\<close>.\<close>

definition default_rashi :: ustr where
  "default_rashi = [3118, 3143, 3127, 3074]"

text \<open>
  The first part of \<open>generate_daily_prediction\<close> (source lines 193 to 226) computes the
  panchang, the sign's entry, the seed, the favorability score and the tone; the second
  part assembles the text and the result from these locals.
\<close>

record scoring =
  sc_tithi :: ustr
  sc_nakshatra :: ustr
  sc_weekday :: int
  sc_weekday_telugu :: ustr
  sc_moon_phase :: ustr
  sc_rashi_info :: rashi_info
  sc_date_seed :: int
  sc_favorability_score :: int
  sc_tone :: ustr

definition date_seed :: "date \<Rightarrow> py_error + int" where
  "date_seed d = int_base16 (take 8 (hexdigest (md5 (encode (str_date d)))))"

definition tone_of :: "int \<Rightarrow> ustr" where
  "tone_of favorability_score =
     (if favorability_score \<ge> 3 then ascii ''favorable''
      else if favorability_score \<le> - 2 then ascii ''challenging''
      else ascii ''neutral'')"

definition score_day :: "ustr \<Rightarrow> date \<Rightarrow> py_error + scoring" where
  "score_day rashi d =
     bind_err (get_tithi d) (\<lambda>tithi.
     bind_err (get_nakshatra d) (\<lambda>nakshatra.
     let weekday = date_weekday d in
     bind_err (get_weekday_telugu d) (\<lambda>weekday_telugu.
     let moon_phase = get_moon_phase d in
     bind_err (dict_getitem rashi_base default_rashi) (\<lambda>dflt.
     let rashi_info = dict_get rashi_base rashi dflt;
         score0 = (0 :: int);
         score1 = (if weekday \<in> set (favorable_days rashi_info) then score0 + 3 else score0) in
     bind_err (date_seed d) (\<lambda>seed.
     let day_influence = seed mod 10 - 5;
         score2 = score1 + day_influence in
     bind_err (list_index nakshatras nakshatra) (\<lambda>nak_index.
     let score3 = (if nak_index mod 3 = 0 then score2 + 1 else score2) in
     Inr \<lparr>sc_tithi = tithi, sc_nakshatra = nakshatra, sc_weekday = weekday,
          sc_weekday_telugu = weekday_telugu, sc_moon_phase = moon_phase,
          sc_rashi_info = rashi_info, sc_date_seed = seed,
          sc_favorability_score = score3, sc_tone = tone_of score3\<rparr>))))))"

definition weekday_openings :: "(int \<times> ustr) list" where
  "weekday_openings =
    [(0, [3128, 3147, 3118, 3125, 3134, 3120, 3074, 32, 3098, 3074, 3110, 3149, 3120, 3137, 3112,
      3135, 32, 3114, 3149, 3120, 3117, 3134, 3125, 3074, 3108, 3147, 32, 3118, 3136, 32, 3118,
        3112, 3128, 3149, 3128, 3137, 32, 3128, 3149, 3109, 3135, 3120, 3074, 3095, 3134, 32, 3081,
          3074, 3103, 3137, 3074, 3110, 3135, 46]),
      (1, [3118, 3074, 3095, 3123, 3125, 3134, 3120, 3074, 32, 3118, 3074, 3095, 3123, 3137, 3112,
        3135, 32, 3126, 3093, 3149, 3108, 3135, 3108, 3147, 32, 3118, 3136, 3093, 3137, 32, 3111,
          3144, 3120, 3149, 3119, 3074, 44, 32, 3126, 3093, 3149, 3108, 3135, 32, 3122, 3117, 3135,
            3128, 3149, 3108, 3134, 3119, 3135, 46]),
      (2, [3116, 3137, 3111, 3125, 3134, 3120, 3074, 32, 3116, 3137, 3111, 3137, 3112, 3135, 32,
        3078, 3126, 3136, 3128, 3149, 3128, 3137, 3108, 3147, 32, 3118, 3136, 32, 3093, 3118, 3149,
          3119, 3138, 3112, 3135, 3093, 3143, 3127, 3112, 3149, 32, 3112, 3144, 3114, 3137, 3107,
            3149, 3119, 3134, 3122, 3137, 32, 3118, 3142, 3120, 3137, 3095, 3137, 3114, 3105, 3108,
              3134, 3119, 3135, 46]),
      (3, [3095, 3137, 3120, 3137, 3125, 3134, 3120, 3074, 32, 3116, 3139, 3129, 3128, 3149, 3114,
        3108, 3135, 32, 3110, 3143, 3125, 3137, 3112, 3135, 32, 3093, 3139, 3114, 3108, 3147, 32,
          3100, 3149, 3102, 3134, 3112, 3074, 44, 32, 3077, 3110, 3139, 3127, 3149, 3103, 3074, 32,
            3114, 3142, 3120, 3137, 3095, 3137, 3108, 3134, 3119, 3135, 46]),
      (4, [3126, 3137, 3093, 3149, 3120, 3125, 3134, 3120, 3074, 32, 3126, 3137, 3093, 3149, 3120,
        3137, 3112, 3135, 32, 3114, 3149, 3120, 3117, 3134, 3125, 3074, 3108, 3147, 32, 3128, 3074,
          3116, 3074, 3111, 3134, 3122, 3137, 44, 32, 3128, 3148, 3074, 3110, 3120, 3149, 3119,
            3074, 32, 3114, 3142, 3120, 3137, 3095, 3137, 3108, 3134, 3119, 3135, 46]),
      (5, [3126, 3112, 3135, 3125, 3134, 3120, 3074, 32, 3126, 3112, 3135, 32, 3110, 3143, 3125,
        3137, 3112, 3135, 32, 3114, 3149, 3120, 3117, 3134, 3125, 3074, 3108, 3147, 32, 3093, 3127,
          3149, 3103, 3114, 3105, 3135, 32, 3114, 3112, 3135, 3098, 3143, 3119, 3074, 3105, 3135,
            46]),
      (6, [3078, 3110, 3135, 3125, 3134, 3120, 3074, 32, 3128, 3138, 3120, 3149, 3119, 3110, 3143,
        3125, 3137, 3112, 3135, 32, 3108, 3143, 3100, 3128, 3149, 3128, 3137, 3108, 3147, 32, 3118,
          3136, 32, 3125, 3149, 3119, 3093, 3149, 3108, 3135, 3108, 3149, 3125, 3074, 32, 3114,
            3149, 3120, 3093, 3134, 3126, 3135, 3128, 3149, 3108, 3137, 3074, 3110, 3135, 46])]"

definition area_telugu_table :: "(ustr \<times> ustr) list" where
  "area_telugu_table =
    [(ascii ''finance'', [3078, 3120, 3149, 3109, 3135, 3093]),
      (ascii ''family'', [3093, 3137, 3103, 3137, 3074, 3116]),
      (ascii ''career'', [3125, 3139, 3108, 3149, 3108, 3135]),
      (ascii ''education'', [3125, 3135, 3110, 3149, 3119, 3134]),
      (ascii ''health'', [3078, 3120, 3147, 3095, 3149, 3119]),
      (ascii ''relationships'', [3128, 3074, 3116, 3074, 3111]),
      (ascii ''leadership'', [3112, 3134, 3119, 3093, 3108, 3149, 3125]),
      (ascii ''spirituality'', [3078, 3111, 3149, 3119, 3134, 3108, 3149, 3118, 3135, 3093]),
      (ascii ''travel'', [3114, 3149, 3120, 3119, 3134, 3107]),
      (ascii ''communication'', [3128, 3074, 3117, 3134, 3127, 3107]),
      (ascii ''action'', [3093, 3134, 3120, 3149, 3119]),
      (ascii ''service'', [3128, 3143, 3125, 3134]),
      (ascii ''balance'', [3128, 3118, 3108, 3137, 3122, 3149, 3119, 3108]),
      (ascii ''transformation'', [3114, 3120, 3135, 3125, 3120, 3149, 3108, 3112]),
      (ascii ''discipline'', [3093, 3149, 3120, 3118, 3126, 3135, 3093, 3149, 3127, 3107]),
      (ascii ''innovation'', [3078, 3125, 3135, 3127, 3149, 3093, 3120, 3107]),
      (ascii ''compassion'', [3093, 3120, 3137, 3107])]"

definition nakshatra_effects :: "(ustr \<times> ustr) list" where
  "nakshatra_effects =
    [([3077, 3126, 3149, 3125, 3135, 3112, 3135], [3125, 3143, 3095, 3125, 3074, 3108, 3118, 3144,
      3112, 32, 3114, 3137, 3120, 3147, 3095, 3108, 3135]),
      ([3120, 3147, 3129, 3135, 3107, 3135], [3128, 3149, 3109, 3135, 3120, 3108, 3149, 3125, 3074,
        32, 3118, 3120, 3135, 3119, 3137, 32, 3125, 3139, 3110, 3149, 3111, 3135]),
      ([3114, 3137, 3127, 3149, 3119, 3118, 3135], [3114, 3147, 3127, 3107, 32, 3118, 3120, 3135,
        3119, 3137, 32, 3126, 3149, 3120, 3143, 3119, 3128, 3149, 3128, 3137]),
      ([3118, 3094], [3095, 3148, 3120, 3125, 3074, 32, 3118, 3120, 3135, 3119, 3137, 32, 3077,
        3111, 3135, 3093, 3134, 3120, 3074]),
      ([3129, 3128, 3149, 3108], [3112, 3144, 3114, 3137, 3107, 3149, 3119, 3074, 32, 3118, 3120,
        3135, 3119, 3137, 32, 3128, 3139, 3100, 3112, 3134, 3108, 3149, 3118, 3093, 3108]),
      ([3128, 3149, 3125, 3134, 3108, 3135], [3128, 3149, 3125, 3108, 3074, 3108, 3149, 3120, 3108,
        32, 3118, 3120, 3135, 3119, 3137, 32, 3128, 3134, 3112, 3137, 3093, 3138, 3122, 3108]),
      ([3077, 3112, 3138, 3120, 3134, 3111], [3128, 3149, 3112, 3143, 3129, 3074, 32, 3118, 3120,
        3135, 3119, 3137, 32, 3128, 3129, 3093, 3134, 3120, 3074]),
      ([3118, 3138, 3122], [3114, 3120, 3135, 3125, 3120, 3149, 3108, 3112, 32, 3118, 3120, 3135,
        3119, 3137, 32, 3114, 3137, 3112, 3134, 3110, 3137, 3122, 3137]),
      ([3126, 3149, 3120, 3125, 3107, 3074], [3100, 3149, 3102, 3134, 3112, 3074, 32, 3118, 3120,
        3135, 3119, 3137, 32, 3077, 3125, 3095, 3134, 3129, 3112]),
      ([3126, 3108, 3117, 3135, 3127, 3074], [3125, 3144, 3110, 3149, 3119, 3074, 32, 3118, 3120,
        3135, 3119, 3137, 32, 3120, 3129, 3128, 3149, 3119, 3134, 3122, 3137]),
      ([3120, 3143, 3125, 3108, 3135], [3093, 3120, 3137, 3107, 32, 3118, 3120, 3135, 3119, 3137,
        32, 3114, 3138, 3120, 3149, 3107, 3108, 3149, 3125, 3074])]"

text \<open>The loop over the first two areas (source lines 244 to 256), appending to
  \<open>prediction_parts\<close>.\<close>

fun area_loop :: "ustr \<Rightarrow> int \<Rightarrow> ustr list \<Rightarrow> ustr list \<Rightarrow> py_error + ustr list" where
  "area_loop tone seed prediction_parts [] = Inr prediction_parts"
| "area_loop tone seed prediction_parts (area # rest) =
     (let area_telugu = dict_get area_telugu_table area area in
      case dict_getitem prediction_templates tone of Inl e \<Rightarrow> Inl e
      | Inr templates \<Rightarrow>
         (case py_mod seed (int (length templates)) of Inl e \<Rightarrow> Inl e
          | Inr i \<Rightarrow>
             (case list_getitem templates i of Inl e \<Rightarrow> Inl e
              | Inr template \<Rightarrow>
                  area_loop tone seed
                    (prediction_parts @ [format_area template area_telugu]) rest)))"

text \<open>Source lines 229 to 281: the text of the prediction.\<close>

definition full_prediction :: "scoring \<Rightarrow> py_error + ustr" where
  "full_prediction sc =
     bind_err (dict_getitem weekday_openings (sc_weekday sc)) (\<lambda>opening.
     bind_err (area_loop (sc_tone sc) (sc_date_seed sc) [opening]
                 (take 2 (areas (sc_rashi_info sc)))) (\<lambda>parts1.
     let parts2 =
           (case map_of nakshatra_effects (sc_nakshatra sc) of
              Some effect \<Rightarrow>
                parts1 @ [sc_nakshatra sc @ [32, 3112, 3093, 3149, 3127, 3108, 3149, 3120, 3074,
                  32] @ effect
                            @ [32, 3108, 3142, 3128, 3149, 3108, 3137, 3074, 3110, 3135, 46]]
            | None \<Rightarrow> parts1);
         parts3 =
           (if str_contains [3114, 3138, 3120, 3149, 3108, 3135, 32, 3098, 3074, 3110, 3149, 3120,
             3137, 3105, 3137] (sc_moon_phase sc)
            then parts2 @ [[3114, 3148, 3120, 3149, 3107, 3118, 3135, 32, 3119, 3146, 3093, 3149,
              3093, 32, 3114, 3149, 3120, 3117, 3134, 3125, 3074, 32, 3118, 3136, 32, 3117, 3134,
                3125, 3147, 3110, 3149, 3125, 3143, 3095, 3134, 3122, 3112, 3137, 32, 3116, 3122,
                  3114, 3120, 3137, 3128, 3149, 3108, 3137, 3074, 3110, 3135, 46]]
            else if str_contains [3077, 3118, 3134, 3125, 3134, 3128, 3149, 3119] (sc_moon_phase sc)
            then parts2 @ [[3077, 3118, 3134, 3125, 3134, 3128, 3149, 3119, 32, 3128, 3118, 3119,
              3074, 32, 3093, 3146, 3108, 3149, 3108, 32, 3114, 3149, 3120, 3134, 3120, 3074, 3117,
                3134, 3122, 3093, 3137, 32, 3126, 3137, 3117, 3074, 46]]
            else parts2)
     in Inr (str_join [32] parts3)))"

definition weekday_remedies :: "(int \<times> ustr list) list" where
  "weekday_remedies =
    [(0, [[3128, 3147, 3118, 3125, 3134, 3120, 3074, 32, 3126, 3135, 3125, 3137, 3105, 3135, 3112,
      3135, 32, 3114, 3138, 3100, 3135, 3074, 3098, 3074, 3105, 3135],
           [3114, 3134, 3122, 32, 3110, 3134, 3112, 3074, 32, 3098, 3143, 3119, 3074, 3105, 3135],
           [3108, 3142, 3122, 3149, 3122, 32, 3125, 3128, 3149, 3108, 3137, 3125, 3137, 3122, 3137,
             32, 3111, 3120, 3135, 3074, 3098, 3074, 3105, 3135]]),
      (1, [[3118, 3074, 3095, 3123, 3125, 3134, 3120, 3074, 32, 3129, 3112, 3137, 3118, 3134, 3112,
        3149, 32, 3100, 3136, 32, 3114, 3138, 3100],
           [3086, 3120, 3137, 3114, 3137, 32, 3095, 3135, 3074, 3100, 3122, 3137, 32, 3110, 3134,
             3112, 3074],
           [3129, 3112, 3137, 3118, 3134, 3112, 3149, 32, 3098, 3134, 3122, 3136, 3128, 3134, 32,
             3114, 3134, 3120, 3134, 3119, 3107]]),
      (2, [[3116, 3137, 3111, 3125, 3134, 3120, 3074, 32, 3125, 3135, 3127, 3149, 3107, 3137, 32,
        3118, 3138, 3120, 3149, 3108, 3135, 3112, 3135, 32, 3114, 3138, 3100, 3135, 3074, 3098,
          3074, 3105, 3135],
           [3114, 3098, 3149, 3098, 3135, 32, 3118, 3135, 3120, 3114, 32, 3110, 3134, 3112, 3074],
           [3125, 3135, 3110, 3149, 3119, 3134, 3120, 3149, 3109, 3137, 3122, 3093, 3137, 32, 3128,
             3129, 3134, 3119, 3074]]),
      (3, [[3095, 3137, 3120, 3137, 3125, 3134, 3120, 3074, 32, 3116, 3139, 3129, 3128, 3149, 3114,
        3108, 3135, 32, 3110, 3143, 3125, 3137, 3105, 3135, 3112, 3135, 32, 3114, 3138, 3100, 3135,
          3074, 3098, 3074, 3105, 3135],
           [3114, 3128, 3137, 3114, 3137, 32, 3110, 3134, 3112, 3074],
           [3095, 3137, 3120, 3137, 3125, 3137, 3122, 3112, 3137, 32, 3095, 3148, 3120, 3125, 3135,
             3074, 3098, 3074, 3105, 3135]]),
      (4, [[3126, 3137, 3093, 3149, 3120, 3125, 3134, 3120, 3074, 32, 3118, 3129, 3134, 3122, 3093,
        3149, 3127, 3149, 3118, 3135, 32, 3114, 3138, 3100],
           [3108, 3143, 3112, 3142, 32, 3110, 3134, 3112, 3074],
           [3108, 3142, 3122, 3149, 3122, 32, 3114, 3138, 3122, 3137, 32, 3077, 3120, 3149, 3114,
             3135, 3074, 3098, 3074, 3105, 3135]]),
      (5, [[3126, 3112, 3135, 3125, 3134, 3120, 3074, 32, 3126, 3112, 3135, 32, 3110, 3143, 3125,
        3137, 3105, 3135, 3112, 3135, 32, 3112, 3118, 3128, 3149, 3093, 3120, 3135, 3074, 3098,
          3074, 3105, 3135],
           [3112, 3122, 3149, 3122, 3095, 3135, 3074, 3100, 3122, 3137, 32, 3110, 3134, 3112, 3074],
           [3114, 3143, 3110, 3122, 3093, 3137, 32, 3128, 3129, 3134, 3119, 3074]]),
      (6, [[3078, 3110, 3135, 3125, 3134, 3120, 3074, 32, 3128, 3138, 3120, 3149, 3119, 3137, 3105,
        3135, 3093, 3135, 32, 3077, 3120, 3149, 3096, 3149, 3119, 3074],
           [3095, 3147, 3111, 3137, 3118, 3122, 3137, 32, 3110, 3134, 3112, 3074],
           [3114, 3135, 3108, 3139, 3110, 3143, 3125, 3108, 3122, 3093, 3137, 32, 3114, 3149, 3120,
             3134, 3120, 3149, 3109, 3112]])]"

definition rashi_remedies :: "(ustr \<times> ustr) list" where
  "rashi_remedies =
    [([3125, 3139, 3127, 3117, 3074], [3126, 3137, 3093, 3149, 3120, 32, 3118, 3074, 3108, 3149,
      3120, 3074, 32, 40, 3091, 3074, 32, 3126, 3137, 3093, 3149, 3120, 3134, 3119, 32, 3112, 3118,
        3075, 41, 32, 3100, 3114, 3135, 3074, 3098, 3074, 3105, 3135]),
      ([3128, 3135, 3074, 3129, 3074], [3095, 3134, 3119, 3108, 3149, 3120, 3136, 32, 3118, 3074,
        3108, 3149, 3120, 3074, 32, 3114, 3134, 3120, 3134, 3119, 3107, 32, 3098, 3143, 3119, 3074,
          3105, 3135]),
      ([3111, 3112, 3137, 3128, 3149, 3128, 3137], [3125, 3135, 3127, 3149, 3107, 3137, 32, 3128,
        3129, 3128, 3149, 3120, 3112, 3134, 3118, 3074, 32, 3098, 3110, 3125, 3074, 3105, 3135])]"

definition fallback_remedy :: ustr where
  "fallback_remedy = [3080, 3120, 3147, 3100, 3137, 32, 3118, 3136, 32, 3079, 3127, 3149, 3103,
    3110, 3144, 3125, 3134, 3112, 3149, 3112, 3135, 32, 3114, 3149, 3120, 3134, 3120, 3149, 3109,
      3135, 3074, 3098, 3074, 3105, 3135, 32, 45, 32, 3077, 3105, 3149, 3105, 3074, 3093, 3137,
        3122, 3137, 32, 3108, 3146, 3122, 3095, 3135, 3114, 3147, 3108, 3134, 3119, 3135]"

definition generate_daily_remedies :: "ustr \<Rightarrow> int \<Rightarrow> ustr \<Rightarrow> py_error + ustr list" where
  "generate_daily_remedies rashi weekday tone =
     (let remedies0 = [] in
      bind_err (dict_getitem weekday_remedies weekday) (\<lambda>wr.
      let remedies1 = remedies0 @ take 2 wr;
          remedies2 = (case map_of rashi_remedies rashi of
                         Some r \<Rightarrow> remedies1 @ [r] | None \<Rightarrow> remedies1);
          remedies3 = (if tone = ascii ''challenging'' then remedies2 @ [fallback_remedy]
                       else remedies2)
      in Inr remedies3))"

record lucky_elements =
  lucky_color :: ustr
  lucky_number :: ustr
  lucky_time :: ustr
  lucky_direction :: ustr

definition rashi_colors :: "(ustr \<times> ustr list) list" where
  "rashi_colors =
    [([3125, 3139, 3127, 3117, 3074],
        [[3108, 3142, 3122, 3137, 3114, 3137], [3095, 3137, 3122, 3134, 3116, 3136], [3078, 3093, 3137, 3114, 3098, 3149, 3098]]),
      ([3128, 3135, 3074, 3129, 3074],
        [[3116, 3074, 3095, 3134, 3120, 3137], [3112, 3134, 3120, 3135, 3074, 3100], [3086, 3120, 3137, 3114, 3137]]),
      ([3111, 3112, 3137, 3128, 3149, 3128, 3137],
        [[3114, 3128, 3137, 3114, 3137], [3112, 3134, 3120, 3135, 3074, 3100], [3082, 3110, 3134]]),
      ([3118, 3143, 3127, 3074],
        [[3086, 3120, 3137, 3114, 3137], [3112, 3134, 3120, 3135, 3074, 3100]]),
      ([3118, 3135, 3109, 3137, 3112, 3074],
        [[3078, 3093, 3137, 3114, 3098, 3149, 3098], [3114, 3128, 3137, 3114, 3137]]),
      ([3093, 3120, 3149, 3093, 3134, 3103, 3093, 3074],
        [[3108, 3142, 3122, 3137, 3114, 3137], [3125, 3142, 3074, 3105, 3135]]),
      ([3093, 3112, 3149, 3119],
        [[3078, 3093, 3137, 3114, 3098, 3149, 3098], [3095, 3147, 3111, 3137, 3118]]),
      ([3108, 3137, 3122],
        [[3095, 3137, 3122, 3134, 3116, 3136], [3112, 3136, 3122, 3074]]),
      ([3125, 3139, 3126, 3149, 3098, 3135, 3093, 3074],
        [[3086, 3120, 3137, 3114, 3137], [3112, 3122, 3137, 3114, 3137]]),
      ([3118, 3093, 3120, 3074],
        [[3112, 3122, 3137, 3114, 3137], [3095, 3147, 3111, 3137, 3118]]),
      ([3093, 3137, 3074, 3117, 3074],
        [[3112, 3136, 3122, 3074], [3125, 3144, 3122, 3142, 3103, 3149]]),
      ([3118, 3136, 3112, 3074],
        [[3114, 3128, 3137, 3114, 3137], [3128, 3118, 3137, 3110, 3149, 3120, 32, 3078, 3093, 3137,
          3114, 3098, 3149, 3098]])]"

definition default_colors :: "ustr list" where
  "default_colors = [[3108, 3142, 3122, 3137, 3114, 3137]]"

definition base_numbers :: "int list" where
  "base_numbers = [1, 2, 3, 4, 5, 6, 7, 8, 9]"

definition time_slots :: "ustr list" where
  "time_slots =
    [[3081, 3110, 3119, 3074, 32, 54, 58, 48, 48, 32, 45, 32, 57, 58, 48, 48],
      [3081, 3110, 3119, 3074, 32, 49, 48, 58, 48, 48, 32, 45, 32, 49, 50, 58, 48, 48],
      [3118, 3111, 3149, 3119, 3134, 3129, 3149, 3112, 3074, 32, 49, 50, 58, 48, 48, 32, 45, 32,
        51, 58, 48, 48],
      [3128, 3134, 3119, 3074, 3108, 3149, 3120, 3074, 32, 52, 58, 48, 48, 32, 45, 32, 54, 58, 48,
        48],
      [3128, 3134, 3119, 3074, 3108, 3149, 3120, 3074, 32, 54, 58, 48, 48, 32, 45, 32, 56, 58, 48,
        48]]"

definition directions :: "ustr list" where
  "directions =
    [[3108, 3138, 3120, 3149, 3114, 3137],
      [3114, 3105, 3118, 3120],
      [3081, 3108, 3149, 3108, 3120, 3074],
      [3110, 3093, 3149, 3127, 3135, 3107, 3074],
      [3080, 3126, 3134, 3112, 3149, 3119, 3074]]"

definition generate_lucky_elements :: "ustr \<Rightarrow> date \<Rightarrow> int \<Rightarrow> py_error + lucky_elements" where
  "generate_lucky_elements rashi d score =
     bind_err (date_seed d) (\<lambda>seed.
     let colors = dict_get rashi_colors rashi default_colors in
     bind_err (py_mod seed (int (length colors))) (\<lambda>ci.
     bind_err (list_getitem colors ci) (\<lambda>color.
     bind_err (list_getitem base_numbers ((day d + score) mod 9)) (\<lambda>num.
     bind_err (py_mod seed (int (length time_slots))) (\<lambda>ti.
     bind_err (list_getitem time_slots ti) (\<lambda>time.
     bind_err (py_mod seed (int (length directions))) (\<lambda>di.
     bind_err (list_getitem directions di) (\<lambda>direction.
     Inr \<lparr>lucky_color = color, lucky_number = str_int num, lucky_time = time,
          lucky_direction = direction\<rparr>))))))))"

record panchang =
  tithi :: ustr
  nakshatra :: ustr
  weekday :: ustr
  moon_phase :: ustr

text \<open>The returned dictionary: the lucky elements spread into it, and four more keys.\<close>

record prediction_result = lucky_elements +
  prediction :: ustr
  panchang :: panchang
  remedies :: "ustr list"
  favorability :: ustr

text \<open>The three labels of source line 299 and the conditional expression choosing one.\<close>

definition label_favorable :: ustr where
  "label_favorable = [3077, 3112, 3137, 3093, 3138, 3122, 3074]"

definition label_caution :: ustr where
  "label_caution = [3100, 3134, 3095, 3149, 3120, 3108, 3149, 3108]"

definition label_normal :: ustr where
  "label_normal = [3128, 3134, 3111, 3134, 3120, 3107, 3074]"

definition favorability_label :: "int \<Rightarrow> ustr" where
  "favorability_label favorability_score =
     (if favorability_score \<ge> 3 then label_favorable
      else if favorability_score \<le> - 2 then label_caution
      else label_normal)"

definition generate_daily_prediction :: "ustr \<Rightarrow> date \<Rightarrow> py_error + prediction_result" where
  "generate_daily_prediction rashi d =
     bind_err (score_day rashi d) (\<lambda>sc.
     bind_err (full_prediction sc) (\<lambda>text.
     bind_err (generate_daily_remedies rashi (sc_weekday sc) (sc_tone sc)) (\<lambda>rem.
     bind_err (generate_lucky_elements rashi d (sc_favorability_score sc)) (\<lambda>lucky.
     Inr \<lparr>lucky_color = lucky_color lucky, lucky_number = lucky_number lucky,
          lucky_time = lucky_time lucky, lucky_direction = lucky_direction lucky,
          prediction = text,
          panchang = \<lparr>tithi = sc_tithi sc, nakshatra = sc_nakshatra sc,
                      weekday = sc_weekday_telugu sc, moon_phase = sc_moon_phase sc\<rparr>,
          remedies = rem,
          favorability = favorability_label (sc_favorability_score sc)\<rparr>))))"

section \<open>TeluguHoroscopeSystem\<close>

text \<open>The signs in the order of the zodiac, with their English names (source lines 391
  to 396).\<close>

definition rashi_mapping :: "(ustr \<times> ustr) list" where
  "rashi_mapping =
    [([3118, 3143, 3127, 3074], ascii ''Aries''),
      ([3125, 3139, 3127, 3117, 3074], ascii ''Taurus''),
      ([3118, 3135, 3109, 3137, 3112, 3074], ascii ''Gemini''),
      ([3093, 3120, 3149, 3093, 3134, 3103, 3093, 3074], ascii ''Cancer''),
      ([3128, 3135, 3074, 3129, 3074], ascii ''Leo''),
      ([3093, 3112, 3149, 3119], ascii ''Virgo''),
      ([3108, 3137, 3122], ascii ''Libra''),
      ([3125, 3139, 3126, 3149, 3098, 3135, 3093, 3074], ascii ''Scorpio''),
      ([3111, 3112, 3137, 3128, 3149, 3128, 3137], ascii ''Sagittarius''),
      ([3118, 3093, 3120, 3074], ascii ''Capricorn''),
      ([3093, 3137, 3074, 3117, 3074], ascii ''Aquarius''),
      ([3118, 3136, 3112, 3074], ascii ''Pisces'')]"

definition calculate_rashi_from_dob :: "date \<Rightarrow> ustr" where
  "calculate_rashi_from_dob dob =
     (let m = month dob; dd = day dob in
      if (m = 3 \<and> dd \<ge> 21) \<or> (m = 4 \<and> dd \<le> 19) then [3118, 3143, 3127, 3074]
      else if (m = 4 \<and> dd \<ge> 20) \<or> (m = 5 \<and> dd \<le> 20) then [3125, 3139, 3127, 3117, 3074]
      else if (m = 5 \<and> dd \<ge> 21) \<or> (m = 6 \<and> dd \<le> 20) then [3118, 3135, 3109, 3137, 3112, 3074]
      else if (m = 6 \<and> dd \<ge> 21) \<or> (m = 7 \<and> dd \<le> 22) then [3093, 3120, 3149, 3093, 3134, 3103, 3093, 3074]
      else if (m = 7 \<and> dd \<ge> 23) \<or> (m = 8 \<and> dd \<le> 22) then [3128, 3135, 3074, 3129, 3074]
      else if (m = 8 \<and> dd \<ge> 23) \<or> (m = 9 \<and> dd \<le> 22) then [3093, 3112, 3149, 3119]
      else if (m = 9 \<and> dd \<ge> 23) \<or> (m = 10 \<and> dd \<le> 22) then [3108, 3137, 3122]
      else if (m = 10 \<and> dd \<ge> 23) \<or> (m = 11 \<and> dd \<le> 21) then [3125, 3139, 3126, 3149, 3098, 3135, 3093, 3074]
      else if (m = 11 \<and> dd \<ge> 22) \<or> (m = 12 \<and> dd \<le> 21) then [3111, 3112, 3137, 3128, 3149, 3128, 3137]
      else if (m = 12 \<and> dd \<ge> 22) \<or> (m = 1 \<and> dd \<le> 19) then [3118, 3093, 3120, 3074]
      else if (m = 1 \<and> dd \<ge> 20) \<or> (m = 2 \<and> dd \<le> 18) then [3093, 3137, 3074, 3117, 3074]
      else [3118, 3136, 3112, 3074])"


section \<open>Auxiliary tables of the proofs\<close>

text \<open>
  The doubles nearest to \<open>k / 30\<close> for \<open>k = 0, \<dots>, 29\<close>, as multiples of \<open>2\<^sup>-\<^sup>5\<^sup>7\<close>:
  the values the local \<open>phase\<close> can take (checked against \<open>double_of_rat\<close> below).
\<close>

definition phase_doubles :: "(int \<times> int) list" where
  "phase_doubles = zip [0..29]
    [0, 4803839602528529, 9607679205057058, 14411518807585588,
     19215358410114116, 24019198012642644, 28823037615171176, 33626877217699704,
     38430716820228232, 43234556422756760, 48038396025285288, 52842235627813816,
     57646075230342352, 62449914832870880, 67253754435399408, 72057594037927936,
     76861433640456464, 81665273242984992, 86469112845513520, 91272952448042048,
     96076792050570576, 100880631653099104, 105684471255627632, 110488310858156176,
     115292150460684704, 120095990063213232, 124899829665741760, 129703669268270288,
     134507508870798816, 139311348473327344]"

section \<open>Basic facts about the Python operations\<close>

lemma bind_err_Inr [simp]: "bind_err (Inr v) f = f v"
  by (simp add: bind_err_def)

lemma bind_err_Inl [simp]: "bind_err (Inl e) f = Inl e"
  by (simp add: bind_err_def)

lemma list_getitem_in_range:
  "0 \<le> i \<Longrightarrow> i < int (length xs) \<Longrightarrow> list_getitem xs i = Inr (xs ! nat i)"
  by (simp add: list_getitem_def)

lemma dict_getitem_key:
  "k \<in> set (map fst d) \<Longrightarrow> \<exists>v. dict_getitem d k = Inr v \<and> map_of d k = Some v \<and> (k, v) \<in> set d"
proof -
  assume "k \<in> set (map fst d)"
  then have "map_of d k \<noteq> None"
    by (simp add: map_of_eq_None_iff)
  then obtain v where v: "map_of d k = Some v" by blast
  then have "(k, v) \<in> set d" by (rule map_of_SomeD)
  with v show ?thesis by (simp add: dict_getitem_def)
qed

lemma dict_get_cases:
  "dict_get d k dflt = dflt \<and> k \<notin> set (map fst d) \<or> (k, dict_get d k dflt) \<in> set d"
proof (cases "map_of d k")
  case None
  moreover from None have "k \<notin> set (map fst d)"
    by (simp add: map_of_eq_None_iff)
  ultimately show ?thesis by (simp add: dict_get_def)
next
  case (Some v)
  then have "(k, v) \<in> set d" by (rule map_of_SomeD)
  with Some show ?thesis by (simp add: dict_get_def)
qed

lemma py_mod_pos:
  "0 < n \<Longrightarrow> \<exists>i. py_mod a n = Inr i \<and> 0 \<le> i \<and> i < n"
  by (simp add: py_mod_def)

lemma list_index_nth:
  "distinct xs \<Longrightarrow> i < length xs \<Longrightarrow> list_index xs (xs ! i) = Inr (int i)"
proof (induction xs arbitrary: i)
  case Nil
  then show ?case by simp
next
  case (Cons y ys)
  show ?case
  proof (cases i)
    case 0
    then show ?thesis by simp
  next
    case (Suc j)
    with Cons.prems have j: "j < length ys" and d: "distinct ys" and ny: "y \<notin> set ys"
      by simp_all
    from j ny have "ys ! j \<noteq> y" by (metis nth_mem)
    with Cons.IH [OF d j] Suc show ?thesis by simp
  qed
qed

lemma length_tithis: "length tithis = 15"
  by (simp add: tithis_def)

lemma length_nakshatras: "length nakshatras = 27"
  by (simp add: nakshatras_def)

lemma distinct_nakshatras: "distinct nakshatras"
  by (simp add: nakshatras_def)

lemma weekday_keys:
  "map fst weekdays_telugu = [0, 1, 2, 3, 4, 5, 6]"
  "map fst weekday_openings = [0, 1, 2, 3, 4, 5, 6]"
  "map fst weekday_remedies = [0, 1, 2, 3, 4, 5, 6]"
  by (simp_all add: weekdays_telugu_def weekday_openings_def weekday_remedies_def)

lemma weekday_in_keys:
  "0 \<le> w \<Longrightarrow> w \<le> 6 \<Longrightarrow> w \<in> set [0, 1, 2, 3, 4, 5, 6 :: int]"
  by (simp; arith)

lemma hex_digit_value_all:
  "list_all (\<lambda>n. hex_value (hex_digit n) = Some (int n)) [0..<16]"
  by code_simp

lemma hex_digit_value: "n < 16 \<Longrightarrow> hex_value (hex_digit n) = Some (int n)"
  using hex_digit_value_all by (simp add: list_all_iff)

lemma byte_nibbles: "unat (b :: byte) div 16 < 16" "unat b mod 16 < 16"
proof -
  have "unat b < 256" using unsigned_less [of b, where 'a = nat] by simp
  then show "unat b div 16 < 16" by arith
  show "unat b mod 16 < 16" by simp
qed

lemma hexdigest_hex: "c \<in> set (hexdigest bs) \<Longrightarrow> hex_value c \<noteq> None"
  by (auto simp: hexdigest_def hex_digit_value byte_nibbles)

lemma length_hexdigest: "length (hexdigest bs) = 2 * length bs"
  by (induction bs) (simp_all add: hexdigest_def)

lemma length_md5: "length (md5 msg) = 16"
  by (simp add: md5_def bytes_le32_def split: prod.splits)

lemma int_base16_acc_hex:
  "\<forall>c \<in> set cs. hex_value c \<noteq> None \<Longrightarrow> 0 \<le> acc \<Longrightarrow>
   \<exists>v. int_base16_acc acc cs = Inr v \<and> 0 \<le> v"
proof (induction cs arbitrary: acc)
  case Nil
  then show ?case by simp
next
  case (Cons c cs)
  then obtain v where v: "hex_value c = Some v" by auto
  then have "0 \<le> v"
    by (auto simp: hex_value_def split: if_splits)
  with Cons.prems have "0 \<le> 16 * acc + v" by simp
  with Cons v show ?case by simp
qed

lemma date_seed_total: "\<exists>seed. date_seed d = Inr seed \<and> 0 \<le> seed"
proof -
  let ?h = "take 8 (hexdigest (md5 (encode (str_date d))))"
  have "length ?h = 8"
    by (simp add: length_hexdigest length_md5)
  then have ne: "?h \<noteq> []" by auto
  have "\<forall>c \<in> set ?h. hex_value c \<noteq> None"
    by (meson hexdigest_hex in_set_takeD)
  from int_base16_acc_hex [OF this, of 0] ne show ?thesis
    by (simp add: date_seed_def int_base16_def)
qed

lemma date_seed_D0: "date_seed \<lparr>year = 2024, month = 1, day = 11\<rparr> = Inr 1734107559"
  by code_simp

section \<open>The panchang and the score\<close>

lemma lunar_day_range: "0 \<le> lunar_day d" "lunar_day d < 30"
  by (simp_all add: lunar_day_def)

lemma tithi_index_range: "0 \<le> tithi_index d" "tithi_index d < 15"
  by (simp_all add: tithi_index_def)

lemma nakshatra_index_range: "0 \<le> nakshatra_index d" "nakshatra_index d < 27"
  by (simp_all add: nakshatra_index_def)

lemma date_weekday_range: "0 \<le> date_weekday d" "date_weekday d \<le> 6"
  by (simp_all add: date_weekday_def) 

lemma get_tithi_total: "\<exists>t. get_tithi d = Inr t"
  using tithi_index_range [of d]
  by (simp add: get_tithi_def Let_def list_getitem_in_range length_tithis)

lemma get_nakshatra_eq: "get_nakshatra d = Inr (nakshatras ! nat (nakshatra_index d))"
  using nakshatra_index_range [of d]
  by (simp add: get_nakshatra_def list_getitem_in_range length_nakshatras)

lemma nakshatra_list_index:
  "list_index nakshatras (nakshatras ! nat (nakshatra_index d)) = Inr (nakshatra_index d)"
proof -
  have "nat (nakshatra_index d) < length nakshatras"
    using nakshatra_index_range [of d] by (simp add: length_nakshatras)
  from list_index_nth [OF distinct_nakshatras this] nakshatra_index_range(1) [of d]
  show ?thesis by simp
qed

lemma get_weekday_telugu_total: "\<exists>w. get_weekday_telugu d = Inr w"
proof -
  have "date_weekday d \<in> set (map fst weekdays_telugu)"
    using date_weekday_range [of d] by (simp only: weekday_keys weekday_in_keys)
  from dict_getitem_key [OF this] show ?thesis
    by (auto simp: get_weekday_telugu_def)
qed

lemma default_rashi_entry: "\<exists>dflt. dict_getitem rashi_base default_rashi = Inr dflt"
  by (simp add: dict_getitem_def rashi_base_def default_rashi_def)

lemma score_day_eq:
  "\<exists>t w dflt seed.
      get_tithi d = Inr t \<and> get_weekday_telugu d = Inr w \<and>
      dict_getitem rashi_base default_rashi = Inr dflt \<and>
      date_seed d = Inr seed \<and> 0 \<le> seed \<and>
      score_day rashi d =
        Inr \<lparr>sc_tithi = t, sc_nakshatra = nakshatras ! nat (nakshatra_index d),
             sc_weekday = date_weekday d, sc_weekday_telugu = w,
             sc_moon_phase = get_moon_phase d,
             sc_rashi_info = dict_get rashi_base rashi dflt, sc_date_seed = seed,
             sc_favorability_score =
               (if date_weekday d \<in> set (favorable_days (dict_get rashi_base rashi dflt))
                then 3 else 0)
               + (seed mod 10 - 5)
               + (if nakshatra_index d mod 3 = 0 then 1 else 0),
             sc_tone = tone_of
               ((if date_weekday d \<in> set (favorable_days (dict_get rashi_base rashi dflt))
                 then 3 else 0)
                + (seed mod 10 - 5)
                + (if nakshatra_index d mod 3 = 0 then 1 else 0))\<rparr>"
proof -
  obtain t where t: "get_tithi d = Inr t"
    using get_tithi_total by blast
  obtain w where w: "get_weekday_telugu d = Inr w"
    using get_weekday_telugu_total by blast
  obtain dflt where dflt: "dict_getitem rashi_base default_rashi = Inr dflt"
    using default_rashi_entry by blast
  obtain seed where seed: "date_seed d = Inr seed" "0 \<le> seed"
    using date_seed_total by blast
  show ?thesis
    by (simp add: score_day_def t w dflt seed get_nakshatra_eq nakshatra_list_index Let_def)
qed

section \<open>The assembly of the result\<close>

lemma ascii_eq_iff: "ascii s = ascii t \<longleftrightarrow> s = t"
  unfolding ascii_def
  by (metis (no_types) char_of_char list.map_comp list.map_id0 id_apply comp_def list.map_cong)

lemma tone_strings:
  "ascii ''favorable'' \<noteq> ascii ''neutral''"
  "ascii ''favorable'' \<noteq> ascii ''challenging''"
  "ascii ''neutral'' \<noteq> ascii ''challenging''"
  by (simp_all add: ascii_eq_iff)

lemma templates_of_tone:
  "\<exists>ts. dict_getitem prediction_templates (tone_of s) = Inr ts \<and> ts \<noteq> []"
  using tone_strings
  by (simp add: tone_of_def prediction_templates_def dict_getitem_def)

lemma area_loop_total:
  "\<exists>ps. area_loop (tone_of s) seed parts as = Inr ps"
proof (induction as arbitrary: parts)
  case Nil
  show ?case by simp
next
  case (Cons a as)
  obtain ts where ts: "dict_getitem prediction_templates (tone_of s) = Inr ts" "ts \<noteq> []"
    using templates_of_tone by blast
  then have "0 < int (length ts)" by simp
  from py_mod_pos [OF this, of seed]
  obtain i where i: "py_mod seed (int (length ts)) = Inr i" "0 \<le> i" "i < int (length ts)"
    by blast
  from list_getitem_in_range [OF i(2,3)] ts(1) i(1) Cons.IH show ?case
    by (simp add: Let_def)
qed

lemma full_prediction_total:
  assumes "0 \<le> sc_weekday sc" "sc_weekday sc \<le> 6" "sc_tone sc = tone_of s"
  shows "\<exists>t. full_prediction sc = Inr t"
proof -
  have "sc_weekday sc \<in> set (map fst weekday_openings)"
    using assms(1,2) by (simp only: weekday_keys weekday_in_keys)
  from dict_getitem_key [OF this]
  obtain opn where o: "dict_getitem weekday_openings (sc_weekday sc) = Inr opn"
    by blast
  obtain ps where ps: "area_loop (tone_of s) (sc_date_seed sc) [opn]
      (take 2 (areas (sc_rashi_info sc))) = Inr ps"
    using area_loop_total by blast
  show ?thesis
    by (simp add: full_prediction_def o ps assms(3) Let_def)
qed

lemma weekday_remedies_three: "\<forall>(k, v) \<in> set weekday_remedies. length v = 3"
  by (simp add: weekday_remedies_def)

lemma weekday_remedies_entry:
  assumes "0 \<le> w" "w \<le> 6"
  shows "\<exists>cands. dict_getitem weekday_remedies w = Inr cands \<and>
           map_of weekday_remedies w = Some cands \<and> length cands = 3"
proof -
  have "w \<in> set (map fst weekday_remedies)"
    using assms by (simp only: weekday_keys weekday_in_keys)
  from dict_getitem_key [OF this] weekday_remedies_three show ?thesis
    by fastforce
qed

lemma generate_daily_remedies_total:
  assumes "0 \<le> w" "w \<le> 6"
  shows "\<exists>rs. generate_daily_remedies rashi w tone = Inr rs"
  using weekday_remedies_entry [OF assms]
  by (auto simp: generate_daily_remedies_def Let_def)

lemma rashi_colors_nonempty: "\<forall>(k, v) \<in> set rashi_colors. v \<noteq> []"
  by (simp add: rashi_colors_def)

lemma colors_nonempty: "dict_get rashi_colors rashi default_colors \<noteq> []"
  using dict_get_cases [of rashi_colors rashi default_colors] rashi_colors_nonempty
  by (auto simp: default_colors_def)

lemma length_tables:
  "length base_numbers = 9" "length time_slots = 5" "length directions = 5"
  by (simp_all add: base_numbers_def time_slots_def directions_def)

lemma generate_lucky_elements_eq:
  assumes "date_seed d = Inr seed"
  shows "generate_lucky_elements rashi d score =
     Inr \<lparr>lucky_color = dict_get rashi_colors rashi default_colors
              ! nat (seed mod int (length (dict_get rashi_colors rashi default_colors))),
          lucky_number = str_int (base_numbers ! nat ((day d + score) mod 9)),
          lucky_time = time_slots ! nat (seed mod 5),
          lucky_direction = directions ! nat (seed mod 5)\<rparr>"
proof -
  let ?cs = "dict_get rashi_colors rashi default_colors"
  have "0 < int (length ?cs)" using colors_nonempty by simp
  then have c: "list_getitem ?cs (seed mod int (length ?cs))
      = Inr (?cs ! nat (seed mod int (length ?cs)))"
    by (intro list_getitem_in_range) simp_all
  have n: "list_getitem base_numbers ((day d + score) mod 9)
      = Inr (base_numbers ! nat ((day d + score) mod 9))"
    by (intro list_getitem_in_range) (simp_all add: length_tables)
  have t: "list_getitem time_slots (seed mod 5) = Inr (time_slots ! nat (seed mod 5))"
    by (intro list_getitem_in_range) (simp_all add: length_tables)
  have r: "list_getitem directions (seed mod 5) = Inr (directions ! nat (seed mod 5))"
    by (intro list_getitem_in_range) (simp_all add: length_tables)
  from \<open>0 < int (length ?cs)\<close> show ?thesis
    by (simp add: generate_lucky_elements_def assms Let_def py_mod_def c n t r length_tables)
qed

lemma generate_daily_prediction_total:
  "\<exists>res. generate_daily_prediction rashi d = Inr res"
proof -
  obtain sc s where sc: "score_day rashi d = Inr sc" "sc_weekday sc = date_weekday d"
      "sc_tone sc = tone_of s"
    using score_day_eq [of d rashi] by force
  obtain seed where seed: "date_seed d = Inr seed"
    using date_seed_total by blast
  have w: "0 \<le> sc_weekday sc" "sc_weekday sc \<le> 6"
    using date_weekday_range [of d] sc(2) by simp_all
  obtain t where t: "full_prediction sc = Inr t"
    using full_prediction_total [OF w sc(3)] by blast
  obtain rs where rs: "generate_daily_remedies rashi (sc_weekday sc) (sc_tone sc) = Inr rs"
    using generate_daily_remedies_total [OF w] by blast
  show ?thesis
    by (simp add: generate_daily_prediction_def sc(1) t rs generate_lucky_elements_eq [OF seed])
qed


section \<open>Concrete dates\<close>

lemma D1999: "valid_date \<lparr>year = 1999, month = 12, day = 31\<rparr>"
  by (simp add: valid_date_def days_in_month_def is_leap_def)

lemma D2024: "valid_date \<lparr>year = 2024, month = 1, day = 11\<rparr>"
  by (simp add: valid_date_def days_in_month_def is_leap_def)

lemma default_rashi_recognized: "default_rashi \<in> set (map fst rashi_base)"
  by (simp add: default_rashi_def rashi_base_def)


lemma dhanussu_entry:
  "map_of rashi_base (fst (rashi_base ! 2)) = Some (snd (rashi_base ! 2))"
  "favorable_days (snd (rashi_base ! 2)) = [3]"
  by (simp_all add: rashi_base_def)

lemma D2024_values:
  "date_weekday \<lparr>year = 2024, month = 1, day = 11\<rparr> = 3"
  "nakshatra_index \<lparr>year = 2024, month = 1, day = 11\<rparr> = 13"
  "lunar_day \<lparr>year = 2024, month = 1, day = 11\<rparr> = 0"
  by (simp_all add: date_weekday_def nakshatra_index_def lunar_day_def days_between_def
      toordinal_def days_before_year_def days_before_month_def is_leap_def
      epoch_date_def reference_date_def)


section \<open>The buckets of the score and the closed form of the result\<close>




lemma generate_daily_prediction_eq:
  assumes "score_day rashi d = Inr sc" and "sc_weekday sc = date_weekday d"
    and "sc_tone sc = tone_of s"
  shows "\<exists>ptext rem lucky.
      full_prediction sc = Inr ptext
    \<and> generate_daily_remedies rashi (sc_weekday sc) (sc_tone sc) = Inr rem
    \<and> generate_lucky_elements rashi d (sc_favorability_score sc) = Inr lucky
    \<and> generate_daily_prediction rashi d =
        Inr \<lparr>lucky_color = lucky_color lucky, lucky_number = lucky_number lucky,
             lucky_time = lucky_time lucky, lucky_direction = lucky_direction lucky,
             prediction = ptext,
             panchang = \<lparr>tithi = sc_tithi sc, nakshatra = sc_nakshatra sc,
                         weekday = sc_weekday_telugu sc, moon_phase = sc_moon_phase sc\<rparr>,
             remedies = rem,
             favorability = favorability_label (sc_favorability_score sc)\<rparr>"
proof -
  obtain seed where seed: "date_seed d = Inr seed"
    using date_seed_total by blast
  have w: "0 \<le> sc_weekday sc" "sc_weekday sc \<le> 6"
    using date_weekday_range [of d] assms(2) by simp_all
  obtain t where t: "full_prediction sc = Inr t"
    using full_prediction_total [OF w assms(3)] by blast
  obtain rs where rs: "generate_daily_remedies rashi (sc_weekday sc) (sc_tone sc) = Inr rs"
    using generate_daily_remedies_total [OF w] by blast
  show ?thesis
    by (simp add: generate_daily_prediction_def assms(1) t rs generate_lucky_elements_eq [OF seed])
qed



section \<open>Signs that are not keys of the tables\<close>

lemma dict_get_absent: "k \<notin> set (map fst d) \<Longrightarrow> dict_get d k x = x"
  by (simp add: dict_get_def map_of_eq_None_iff [THEN iffD2])

lemma dict_get_present: "dict_getitem d k = Inr v \<Longrightarrow> dict_get d k x = v"
  by (simp add: dict_get_def dict_getitem_def split: option.splits)

lemma table_keys:
  "map fst rashi_colors = map fst rashi_base"
  "set (map fst rashi_remedies) \<subseteq> set (map fst rashi_base)"
  "default_rashi \<notin> set (map fst rashi_remedies)"
  by (simp_all add: rashi_colors_def rashi_base_def rashi_remedies_def default_rashi_def)

lemma score_day_unrecognized:
  assumes "rashi \<notin> set (map fst rashi_base)"
  shows "score_day rashi d = score_day default_rashi d"
proof -
  obtain dflt where dflt: "dict_getitem rashi_base default_rashi = Inr dflt"
    using default_rashi_entry by blast
  have "dict_get rashi_base rashi dflt = dict_get rashi_base default_rashi dflt"
    by (simp add: dict_get_absent [OF assms] dict_get_present [OF dflt])
  then show ?thesis
    by (simp add: score_day_def dflt)
qed

lemma remedies_unrecognized:
  assumes "rashi \<notin> set (map fst rashi_base)"
  shows "generate_daily_remedies rashi w tone = generate_daily_remedies default_rashi w tone"
proof -
  from assms table_keys(2) have "rashi \<notin> set (map fst rashi_remedies)" by blast
  then have "map_of rashi_remedies rashi = None"
    by (simp add: map_of_eq_None_iff)
  moreover from table_keys(3) have "map_of rashi_remedies default_rashi = None"
    by (simp add: map_of_eq_None_iff)
  ultimately show ?thesis
    by (simp add: generate_daily_remedies_def)
qed

lemma lucky_unrecognized:
  assumes "rashi \<notin> set (map fst rashi_base)"
    and "generate_lucky_elements default_rashi d score = Inr lucky"
  shows "generate_lucky_elements rashi d score
           = Inr (lucky\<lparr>lucky_color := default_colors ! 0\<rparr>)"
proof -
  obtain seed where seed: "date_seed d = Inr seed"
    using date_seed_total by blast
  have "rashi \<notin> set (map fst rashi_colors)"
    unfolding table_keys(1) by (rule assms(1))
  then have c: "dict_get rashi_colors rashi default_colors = default_colors"
    by (rule dict_get_absent)
  have l: "length default_colors = 1" by (simp add: default_colors_def)
  from assms(2) show ?thesis
    by (auto simp: generate_lucky_elements_eq [OF seed] c l)
qed

lemma Aries_unrecognized: "ascii ''Aries'' \<notin> set (map fst rashi_base)"
  by (simp add: rashi_base_def ascii_def)

section \<open>The floats of the moon phase\<close>

lemma double_consts:
  "double_of_rat (3 / 100) = 34587645138205408 / 2 ^ 60"
  "double_of_rat (97 / 100) = 1118333859468641536 / 2 ^ 60"
  "double_of_rat (22 / 100) = 253642731013506336 / 2 ^ 60"
  "double_of_rat (28 / 100) = 322818021289917184 / 2 ^ 60"
  "double_of_rat (25 / 100) = 288230376151711744 / 2 ^ 60"
  by code_simp+

lemma phase_doubles_keys: "map fst phase_doubles = [0..29]"
  by code_simp

lemma phase_doubles_correct:
  "list_all (\<lambda>(k, n). double_of_rat (of_int k / of_int 30) = of_int n / 2 ^ 57) phase_doubles"
  by code_simp

lemma phase_doubles_bands:
  "list_all (\<lambda>(k, n).
      ((of_int n / 2 ^ 57 :: rat) < 34587645138205408 / 2 ^ 60) = ((of_int k / 30 :: rat) < 3 / 100)
    \<and> ((of_int n / 2 ^ 57 :: rat) > 1118333859468641536 / 2 ^ 60) = ((of_int k / 30 :: rat) > 97 / 100)
    \<and> (253642731013506336 / 2 ^ 60 < (of_int n / 2 ^ 57 :: rat)) = (22 / 100 < (of_int k / 30 :: rat))
    \<and> ((of_int n / 2 ^ 57 :: rat) < 322818021289917184 / 2 ^ 60) = ((of_int k / 30 :: rat) < 28 / 100)
    \<and> ((of_int n / 2 ^ 57 :: rat) < 288230376151711744 / 2 ^ 60) = ((of_int k / 30 :: rat) < 25 / 100))
    phase_doubles"
  by code_simp

lemma get_moon_phase_exact:
  "get_moon_phase d = moon_phase_bands (of_int (days_between d reference_date mod 30) / 30)"
proof -
  let ?k = "days_between d reference_date mod 30"
  have "?k \<in> set (map fst phase_doubles)"
    unfolding phase_doubles_keys by simp
  then obtain n where n: "(?k, n) \<in> set phase_doubles" by auto
  from n phase_doubles_correct
  have p: "double_of_rat (of_int ?k / of_int 30) = of_int n / 2 ^ 57"
    unfolding list_all_iff by blast
  from n phase_doubles_bands
  have b: "((of_int n / 2 ^ 57 :: rat) < 34587645138205408 / 2 ^ 60) = ((of_int ?k / 30 :: rat) < 3 / 100)
    \<and> ((of_int n / 2 ^ 57 :: rat) > 1118333859468641536 / 2 ^ 60) = ((of_int ?k / 30 :: rat) > 97 / 100)
    \<and> (253642731013506336 / 2 ^ 60 < (of_int n / 2 ^ 57 :: rat)) = (22 / 100 < (of_int ?k / 30 :: rat))
    \<and> ((of_int n / 2 ^ 57 :: rat) < 322818021289917184 / 2 ^ 60) = ((of_int ?k / 30 :: rat) < 28 / 100)
    \<and> ((of_int n / 2 ^ 57 :: rat) < 288230376151711744 / 2 ^ 60) = ((of_int ?k / 30 :: rat) < 25 / 100)"
    unfolding list_all_iff by blast
  show ?thesis
    unfolding get_moon_phase_def moon_phase_bands_def phase_def py_truediv_def p double_consts
    using b by (simp only: of_int_numeral)
qed


section \<open>Periods and further concrete dates\<close>

lemma moon_labels_distinct: "moon_full \<noteq> moon_waxing"
  by (simp add: moon_full_def moon_waxing_def)

lemma D2024_18:
  "valid_date \<lparr>year = 2024, month = 1, day = 18\<rparr>"
  "days_between \<lparr>year = 2024, month = 1, day = 18\<rparr> reference_date mod 30 = 7"
  by (simp_all add: valid_date_def days_in_month_def is_leap_def days_between_def
      toordinal_def days_before_year_def days_before_month_def reference_date_def)

lemma lunar_day_shift:
  "days_between d' d = 30 \<Longrightarrow> lunar_day d' = lunar_day d"
proof -
  assume "days_between d' d = 30"
  then have "days_between d' reference_date = days_between d reference_date + 30"
    by (simp add: days_between_def)
  then show ?thesis by (simp add: lunar_day_def)
qed

lemma nakshatra_index_shift:
  "days_between d' d = 27 \<Longrightarrow> nakshatra_index d' = nakshatra_index d"
proof -
  assume "days_between d' d = 27"
  then have e: "days_between d' epoch_date = days_between d epoch_date + 27"
    by (simp add: days_between_def)
  have "(x + 27) * 13 mod 27 = (x * 13 + 27 * 13) mod (27 :: int)" for x
    by (simp only: distrib_right)
  also have "(x * 13 + 27 * 13) mod 27 = x * 13 mod (27 :: int)" for x
    by (rule mod_mult_self2)
  finally show ?thesis
    unfolding nakshatra_index_def e .
qed

lemma D2024_later:
  "valid_date \<lparr>year = 2024, month = 2, day = 10\<rparr>"
  "valid_date \<lparr>year = 2024, month = 2, day = 7\<rparr>"
  "days_between \<lparr>year = 2024, month = 2, day = 10\<rparr> \<lparr>year = 2024, month = 1, day = 11\<rparr> = 30"
  "days_between \<lparr>year = 2024, month = 2, day = 7\<rparr> \<lparr>year = 2024, month = 1, day = 11\<rparr> = 27"
  by (simp_all add: valid_date_def days_in_month_def is_leap_def days_between_def
      toordinal_def days_before_year_def days_before_month_def)


section \<open>Remedies and lucky numbers\<close>

lemma vrishabha_entry:
  "fst (rashi_base ! 0) \<in> set (map fst rashi_base)"
  "map_of rashi_remedies (fst (rashi_base ! 0)) = Some (snd (rashi_remedies ! 0))"
  by (simp_all add: rashi_base_def rashi_remedies_def)

lemma base_numbers_upto: "base_numbers = [1..9]"
  by code_simp

lemma lucky_number_strings:
  "list_all (\<lambda>i. str_int (base_numbers ! i)
      \<in> set (map (\<lambda>c. ascii [c]) ''123456789''))
    [0..<9]"
  by code_simp


section \<open>The color of the default sign on a concrete date\<close>

lemma default_rashi_colors:
  "dict_get rashi_colors default_rashi default_colors = snd (rashi_colors ! 3)"
  "length (snd (rashi_colors ! 3)) = 2"
  "snd (rashi_colors ! 3) ! 1 \<noteq> default_colors ! 0"
  by (simp_all add: dict_get_def rashi_colors_def default_rashi_def default_colors_def)

lemma default_color_D2024:
  assumes "generate_daily_prediction default_rashi \<lparr>year = 2024, month = 1, day = 11\<rparr> = Inr res"
  shows "lucky_color res = snd (rashi_colors ! 3) ! 1"
proof -
  let ?d = "\<lparr>year = 2024, month = 1, day = 11\<rparr>"
  obtain sc s where sc: "score_day default_rashi ?d = Inr sc"
      "sc_weekday sc = date_weekday ?d" "sc_tone sc = tone_of s"
    using score_day_eq [of ?d default_rashi] by force
  from generate_daily_prediction_eq [OF sc]
  obtain ptext rem lucky where g:
    "full_prediction sc = Inr ptext"
    "generate_daily_remedies default_rashi (sc_weekday sc) (sc_tone sc) = Inr rem"
    "generate_lucky_elements default_rashi ?d (sc_favorability_score sc) = Inr lucky"
    "generate_daily_prediction default_rashi ?d =
        Inr \<lparr>lucky_color = lucky_color lucky, lucky_number = lucky_number lucky,
             lucky_time = lucky_time lucky, lucky_direction = lucky_direction lucky,
             prediction = ptext,
             panchang = \<lparr>tithi = sc_tithi sc, nakshatra = sc_nakshatra sc,
                         weekday = sc_weekday_telugu sc, moon_phase = sc_moon_phase sc\<rparr>,
             remedies = rem,
             favorability = favorability_label (sc_favorability_score sc)\<rparr>"
    by (elim exE conjE) (rule that)
  from g(3) have "lucky_color lucky = snd (rashi_colors ! 3) ! 1"
    by (auto simp: generate_lucky_elements_eq [OF date_seed_D0] default_rashi_colors)
  with g(4) assms show ?thesis by auto
qed


section \<open>The library models on known values\<close>

text \<open>The test vector of RFC 1321 for the message "abc".\<close>

lemma md5_rfc1321_abc:
  "hexdigest (md5 (encode (ascii ''abc''))) = ascii ''900150983cd24fb0d6963f7d28e17f72''"
  by code_simp

text \<open>Every template holds one opening brace and one closing brace, those of its
  \<open>{area}\<close> field, so \<open>format_area\<close> is what \<open>str.format\<close> does on it.\<close>

lemma templates_one_field:
  "list_all (\<lambda>(tone, ts).
      list_all (\<lambda>t. count_list t 123 = 1 \<and> count_list t 125 = 1
                    \<and> str_contains (ascii ''{area}'') t) ts)
    prediction_templates"
  by (simp add: prediction_templates_def ascii_def)

section \<open>The claims of the specification\<close>

text \<open>
  C9. \<open>calculate_rashi_from_dob\<close> maps 21 March and 19 April, of any years, to the same
  sign, the first of the zodiac order of \<open>rashi_mapping\<close>, and maps 20 April to the
  next sign of that order.
\<close>

theorem calculate_rashi_boundary:
  "calculate_rashi_from_dob \<lparr>year = y, month = 3, day = 21\<rparr>
     = calculate_rashi_from_dob \<lparr>year = y', month = 4, day = 19\<rparr>
   \<and> list_index (map fst rashi_mapping)
         (calculate_rashi_from_dob \<lparr>year = y, month = 3, day = 21\<rparr>) = Inr 0
   \<and> list_index (map fst rashi_mapping)
         (calculate_rashi_from_dob \<lparr>year = y'', month = 4, day = 20\<rparr>) = Inr 1"
  by (simp add: calculate_rashi_from_dob_def rashi_mapping_def)

text \<open>
  C10. For every date, also one before the reference new moon of 2024-01-11 and before
  the epoch 2000-01-01, \<open>generate_daily_prediction\<close> returns a result for any sign
  string: the tithi index lies in 0..14, the nakshatra index in 0..26, the weekday in
  0..6 and the lucky-number index in 0..8 whatever the score, so each table lookup
  succeeds.
\<close>

theorem generate_total:
  assumes "valid_date d"
  shows "(\<exists>res. generate_daily_prediction rashi d = Inr res)
    \<and> 0 \<le> tithi_index d \<and> tithi_index d \<le> 14
    \<and> (\<exists>t. list_getitem tithis (tithi_index d) = Inr t)
    \<and> 0 \<le> nakshatra_index d \<and> nakshatra_index d \<le> 26
    \<and> (\<exists>n. list_getitem nakshatras (nakshatra_index d) = Inr n)
    \<and> 0 \<le> date_weekday d \<and> date_weekday d \<le> 6
    \<and> (\<exists>w. dict_getitem weekdays_telugu (date_weekday d) = Inr w)
    \<and> (\<forall>score. 0 \<le> (day d + score) mod 9 \<and> (day d + score) mod 9 \<le> 8
          \<and> (\<exists>n. list_getitem base_numbers ((day d + score) mod 9) = Inr n))"
proof -
  have t: "\<exists>t. list_getitem tithis (tithi_index d) = Inr t"
    using tithi_index_range [of d] by (simp add: list_getitem_in_range length_tithis)
  have n: "\<exists>n. list_getitem nakshatras (nakshatra_index d) = Inr n"
    using get_nakshatra_eq [of d] by (simp add: get_nakshatra_def)
  have w: "\<exists>w. dict_getitem weekdays_telugu (date_weekday d) = Inr w"
    using get_weekday_telugu_total [of d] by (simp add: get_weekday_telugu_def)
  have b: "\<exists>n. list_getitem base_numbers ((day d + score) mod 9) = Inr n" for score
    by (simp add: list_getitem_in_range length_tables)
  have r: "0 \<le> (day d + score) mod 9 \<and> (day d + score) mod 9 \<le> 8" for score
    by simp
  from generate_daily_prediction_total [of rashi d] t n w b r
    tithi_index_range [of d] nakshatra_index_range [of d] date_weekday_range [of d]
  show ?thesis by simp
qed

theorem generate_total_witness:
  "valid_date \<lparr>year = 1999, month = 12, day = 31\<rparr>
   \<and> days_between \<lparr>year = 1999, month = 12, day = 31\<rparr> reference_date = - 8777
   \<and> days_between \<lparr>year = 1999, month = 12, day = 31\<rparr> epoch_date = - 1
   \<and> (\<exists>res. generate_daily_prediction default_rashi \<lparr>year = 1999, month = 12, day = 31\<rparr> = Inr res)
   \<and> tithi_index \<lparr>year = 1999, month = 12, day = 31\<rparr> = 13
   \<and> nakshatra_index \<lparr>year = 1999, month = 12, day = 31\<rparr> = 14
   \<and> date_weekday \<lparr>year = 1999, month = 12, day = 31\<rparr> = 4
   \<and> (day \<lparr>year = 1999, month = 12, day = 31\<rparr> + (- 35)) mod 9 = 5
   \<and> list_getitem base_numbers
          ((day \<lparr>year = 1999, month = 12, day = 31\<rparr> + (- 35)) mod 9) = Inr 6"
  using generate_total [OF D1999, of default_rashi]
  by (simp add: days_between_def toordinal_def days_before_year_def days_before_month_def
      is_leap_def reference_date_def epoch_date_def tithi_index_def lunar_day_def
      nakshatra_index_def date_weekday_def D1999 list_getitem_def base_numbers_def)

text \<open>
  C2. For a recognized sign, with entry \<open>info\<close> in \<open>rashi_base\<close>, and a date, the
  favorability score is the sum of three terms: 3 if the weekday of the date is among the
  favorable days of the sign, else 0; the first eight hexadecimal digits of the MD5 digest
  of the ISO form of the date, read as a non-negative integer, reduced modulo 10, minus 5,
  which lies between -5 and 4; and 1 if the index of the date's nakshatra in the list of
  27 is divisible by 3, else 0.
\<close>

theorem favorability_score_terms:
  assumes "valid_date d" and "map_of rashi_base rashi = Some info"
  shows "\<exists>sc seed nak idx.
      score_day rashi d = Inr sc
    \<and> int_base16 (take 8 (hexdigest (md5 (encode (str_date d))))) = Inr seed \<and> 0 \<le> seed
    \<and> get_nakshatra d = Inr nak \<and> length nakshatras = 27
    \<and> list_index nakshatras nak = Inr idx
    \<and> sc_favorability_score sc =
          (if date_weekday d \<in> set (favorable_days info) then 3 else 0)
        + (seed mod 10 - 5)
        + (if idx mod 3 = 0 then 1 else 0)
    \<and> - 5 \<le> seed mod 10 - 5 \<and> seed mod 10 - 5 \<le> 4"
proof -
  obtain t w dflt seed where e:
    "date_seed d = Inr seed" "0 \<le> seed"
    "score_day rashi d =
        Inr \<lparr>sc_tithi = t, sc_nakshatra = nakshatras ! nat (nakshatra_index d),
             sc_weekday = date_weekday d, sc_weekday_telugu = w,
             sc_moon_phase = get_moon_phase d,
             sc_rashi_info = dict_get rashi_base rashi dflt, sc_date_seed = seed,
             sc_favorability_score =
               (if date_weekday d \<in> set (favorable_days (dict_get rashi_base rashi dflt))
                then 3 else 0)
               + (seed mod 10 - 5)
               + (if nakshatra_index d mod 3 = 0 then 1 else 0),
             sc_tone = tone_of
               ((if date_weekday d \<in> set (favorable_days (dict_get rashi_base rashi dflt))
                 then 3 else 0)
                + (seed mod 10 - 5)
                + (if nakshatra_index d mod 3 = 0 then 1 else 0))\<rparr>"
    using score_day_eq [of d rashi] by blast
  have i: "dict_get rashi_base rashi dflt = info"
    by (simp add: dict_get_def assms(2))
  have b: "- 5 \<le> seed mod 10 - 5 \<and> seed mod 10 - 5 \<le> 4"
    by simp
  from e(1) have h: "int_base16 (take 8 (hexdigest (md5 (encode (str_date d))))) = Inr seed"
    by (simp add: date_seed_def)
  show ?thesis
    using e(2) h b
    by (simp add: e(3) i get_nakshatra_eq nakshatra_list_index length_nakshatras)
qed

theorem favorability_score_terms_witness:
  "valid_date \<lparr>year = 2024, month = 1, day = 11\<rparr>
   \<and> map_of rashi_base (fst (rashi_base ! 2)) = Some (snd (rashi_base ! 2))
   \<and> date_weekday \<lparr>year = 2024, month = 1, day = 11\<rparr> \<in> set (favorable_days (snd (rashi_base ! 2)))
   \<and> (\<exists>sc. score_day (fst (rashi_base ! 2)) \<lparr>year = 2024, month = 1, day = 11\<rparr> = Inr sc
          \<and> sc_favorability_score sc = 7)"
proof -
  let ?d = "\<lparr>year = 2024, month = 1, day = 11\<rparr>"
  from favorability_score_terms [OF D2024 dhanussu_entry(1)]
  obtain sc seed nak idx where e:
    "score_day (fst (rashi_base ! 2)) ?d = Inr sc"
    "int_base16 (take 8 (hexdigest (md5 (encode (str_date ?d))))) = Inr seed"
    "get_nakshatra ?d = Inr nak" "list_index nakshatras nak = Inr idx"
    "sc_favorability_score sc =
          (if date_weekday ?d \<in> set (favorable_days (snd (rashi_base ! 2))) then 3 else 0)
        + (seed mod 10 - 5)
        + (if idx mod 3 = 0 then 1 else 0)"
    by blast
  from e(2) date_seed_D0 have s: "seed = 1734107559"
    by (simp add: date_seed_def)
  from e(3,4) have "idx = 13"
    using nakshatra_list_index [of ?d] by (simp add: get_nakshatra_eq D2024_values)
  with e(1,5) s show ?thesis
    by (simp add: D2024 dhanussu_entry D2024_values)
qed





text \<open>
  C4. For a sign string that is not a key of \<open>rashi_base\<close> and any date,
  \<open>generate_daily_prediction\<close> raises nothing: it returns the result of the default
  sign, with the lucky color replaced by the single default color, since such a sign is
  not a key of the color table either.
\<close>

theorem unrecognized_sign_substitutes_default:
  assumes "valid_date d" and "rashi \<notin> set (map fst rashi_base)"
  shows "\<exists>res c. generate_daily_prediction default_rashi d = Inr res
     \<and> default_colors = [c]
     \<and> generate_daily_prediction rashi d = Inr (res\<lparr>lucky_color := c\<rparr>)"
proof -
  obtain sc s where sc: "score_day default_rashi d = Inr sc"
      "sc_weekday sc = date_weekday d" "sc_tone sc = tone_of s"
    using score_day_eq [of d default_rashi] by force
  from generate_daily_prediction_eq [OF sc]
  obtain ptext rem lucky where g:
    "full_prediction sc = Inr ptext"
    "generate_daily_remedies default_rashi (sc_weekday sc) (sc_tone sc) = Inr rem"
    "generate_lucky_elements default_rashi d (sc_favorability_score sc) = Inr lucky"
    "generate_daily_prediction default_rashi d =
        Inr \<lparr>lucky_color = lucky_color lucky, lucky_number = lucky_number lucky,
             lucky_time = lucky_time lucky, lucky_direction = lucky_direction lucky,
             prediction = ptext,
             panchang = \<lparr>tithi = sc_tithi sc, nakshatra = sc_nakshatra sc,
                         weekday = sc_weekday_telugu sc, moon_phase = sc_moon_phase sc\<rparr>,
             remedies = rem,
             favorability = favorability_label (sc_favorability_score sc)\<rparr>"
    by (elim exE conjE) (rule that)
  have c: "default_colors = [default_colors ! 0]"
    by (simp add: default_colors_def)
  have "generate_daily_prediction rashi d =
        Inr \<lparr>lucky_color = default_colors ! 0, lucky_number = lucky_number lucky,
             lucky_time = lucky_time lucky, lucky_direction = lucky_direction lucky,
             prediction = ptext,
             panchang = \<lparr>tithi = sc_tithi sc, nakshatra = sc_nakshatra sc,
                         weekday = sc_weekday_telugu sc, moon_phase = sc_moon_phase sc\<rparr>,
             remedies = rem,
             favorability = favorability_label (sc_favorability_score sc)\<rparr>"
    by (simp add: generate_daily_prediction_def score_day_unrecognized [OF assms(2)] sc(1) g(1)
        remedies_unrecognized [OF assms(2)] g(2) lucky_unrecognized [OF assms(2) g(3)])
  with g(4) c show ?thesis
    by (intro exI [of _ "default_colors ! 0"]
        exI [of _ "\<lparr>lucky_color = lucky_color lucky, lucky_number = lucky_number lucky,
             lucky_time = lucky_time lucky, lucky_direction = lucky_direction lucky,
             prediction = ptext,
             panchang = \<lparr>tithi = sc_tithi sc, nakshatra = sc_nakshatra sc,
                         weekday = sc_weekday_telugu sc, moon_phase = sc_moon_phase sc\<rparr>,
             remedies = rem,
             favorability = favorability_label (sc_favorability_score sc)\<rparr>"]) simp
qed

theorem unrecognized_sign_substitutes_default_witness:
  "valid_date \<lparr>year = 2024, month = 1, day = 11\<rparr>
   \<and> ascii ''Aries'' \<notin> set (map fst rashi_base)
   \<and> (\<exists>res c. generate_daily_prediction default_rashi \<lparr>year = 2024, month = 1, day = 11\<rparr> = Inr res
     \<and> default_colors = [c]
     \<and> generate_daily_prediction (ascii ''Aries'') \<lparr>year = 2024, month = 1, day = 11\<rparr>
         = Inr (res\<lparr>lucky_color := c\<rparr>)
     \<and> lucky_color res \<noteq> c)"
proof -
  let ?d = "\<lparr>year = 2024, month = 1, day = 11\<rparr>"
  from unrecognized_sign_substitutes_default [OF D2024 Aries_unrecognized]
  obtain res c where e:
    "generate_daily_prediction default_rashi ?d = Inr res" "default_colors = [c]"
    "generate_daily_prediction (ascii ''Aries'') ?d = Inr (res\<lparr>lucky_color := c\<rparr>)"
    by (elim exE conjE) (rule that)
  from e(2) have "default_colors ! 0 = c" by (metis nth_Cons_0)
  with default_color_D2024 [OF e(1)] default_rashi_colors(3)
  have "lucky_color res \<noteq> c" by simp
  with e D2024 Aries_unrecognized show ?thesis by blast
qed

text \<open>
  C5. For every date the label of \<open>get_moon_phase\<close>, which compares floats, is the one
  that the four bands give on the exact quotient \<open>p\<close> of the day offset modulo 30 by 30,
  tried in this order: \<open>p < 0.03\<close> or \<open>p > 0.97\<close> new; else \<open>0.22 < p < 0.28\<close>
  full; else \<open>p < 0.25\<close> waxing; else waning. Where \<open>0.22 < p < 0.25\<close> the label is
  full, not waxing, since the full band is tried first.
\<close>

theorem moon_phase_band_priority:
  assumes "valid_date d"
  shows "get_moon_phase d = moon_phase_bands (of_int (days_between d reference_date mod 30) / 30)
    \<and> (\<forall>p. 22 / 100 < p \<and> p < 25 / 100 \<longrightarrow> moon_phase_bands p = moon_full)
    \<and> (22 / 100 < (of_int (days_between d reference_date mod 30) / 30 :: rat)
         \<and> (of_int (days_between d reference_date mod 30) / 30 :: rat) < 25 / 100
        \<longrightarrow> get_moon_phase d = moon_full \<and> get_moon_phase d \<noteq> moon_waxing)"
proof -
  have o: "22 / 100 < p \<and> p < 25 / 100 \<longrightarrow> moon_phase_bands p = moon_full" for p
    by (simp add: moon_phase_bands_def)
  show ?thesis
    using o moon_labels_distinct by (simp add: get_moon_phase_exact)
qed

theorem moon_phase_band_priority_witness:
  "valid_date \<lparr>year = 2024, month = 1, day = 18\<rparr>
   \<and> days_between \<lparr>year = 2024, month = 1, day = 18\<rparr> reference_date mod 30 = 7
   \<and> (22 / 100 :: rat) < 7 / 30 \<and> (7 / 30 :: rat) < 25 / 100
   \<and> get_moon_phase \<lparr>year = 2024, month = 1, day = 18\<rparr> = moon_phase_bands (7 / 30)
   \<and> get_moon_phase \<lparr>year = 2024, month = 1, day = 18\<rparr> = moon_full
   \<and> get_moon_phase \<lparr>year = 2024, month = 1, day = 18\<rparr> \<noteq> moon_waxing"
  using moon_phase_band_priority [OF D2024_18(1)] moon_labels_distinct
  by (simp add: D2024_18)


text \<open>
  C6. If the date \<open>d'\<close> is 30 days after \<open>d\<close>, the tithi labels (half-month and
  tithi name) and the moon-phase labels of the two dates are equal; if it is 27 days
  after \<open>d\<close>, the nakshatra indices, and so the nakshatras, are equal.
\<close>

theorem panchang_periodic:
  assumes "valid_date d" and "valid_date d'"
  shows "(days_between d' d = 30 \<longrightarrow>
            get_tithi d' = get_tithi d \<and> get_moon_phase d' = get_moon_phase d)
       \<and> (days_between d' d = 27 \<longrightarrow>
            nakshatra_index d' = nakshatra_index d \<and> get_nakshatra d' = get_nakshatra d)"
proof (intro conjI impI)
  assume a: "days_between d' d = 30"
  from lunar_day_shift [OF a] show "get_tithi d' = get_tithi d"
    by (simp add: get_tithi_def tithi_index_def)
  from lunar_day_shift [OF a] show "get_moon_phase d' = get_moon_phase d"
    by (simp add: get_moon_phase_def phase_def lunar_day_def)
next
  assume a: "days_between d' d = 27"
  from nakshatra_index_shift [OF a] show "nakshatra_index d' = nakshatra_index d" .
  from nakshatra_index_shift [OF a] show "get_nakshatra d' = get_nakshatra d"
    by (simp add: get_nakshatra_def)
qed

theorem panchang_periodic_witness:
  "valid_date \<lparr>year = 2024, month = 1, day = 11\<rparr>
   \<and> valid_date \<lparr>year = 2024, month = 2, day = 10\<rparr>
   \<and> valid_date \<lparr>year = 2024, month = 2, day = 7\<rparr>
   \<and> days_between \<lparr>year = 2024, month = 2, day = 10\<rparr> \<lparr>year = 2024, month = 1, day = 11\<rparr> = 30
   \<and> get_tithi \<lparr>year = 2024, month = 2, day = 10\<rparr> = get_tithi \<lparr>year = 2024, month = 1, day = 11\<rparr>
   \<and> get_moon_phase \<lparr>year = 2024, month = 2, day = 10\<rparr>
       = get_moon_phase \<lparr>year = 2024, month = 1, day = 11\<rparr>
   \<and> days_between \<lparr>year = 2024, month = 2, day = 7\<rparr> \<lparr>year = 2024, month = 1, day = 11\<rparr> = 27
   \<and> nakshatra_index \<lparr>year = 2024, month = 2, day = 7\<rparr> = 13
   \<and> nakshatra_index \<lparr>year = 2024, month = 1, day = 11\<rparr> = 13"
  using panchang_periodic [OF D2024 D2024_later(1)] panchang_periodic [OF D2024 D2024_later(2)]
  by (simp add: D2024 D2024_later D2024_values)


text \<open>
  C7. For a recognized sign, a weekday 0..6 and any tone, the remedies are, in this order:
  the first two of the three candidates of the weekday, then the remedy of the sign if
  \<open>rashi_remedies\<close> has one, then the fallback remedy if the tone is challenging. The
  list has between 2 and 4 entries.
\<close>

theorem remedies_order_and_length:
  assumes "rashi \<in> set (map fst rashi_base)" and "0 \<le> w" and "w \<le> 6"
  shows "\<exists>cands rem.
      map_of weekday_remedies w = Some cands \<and> length cands = 3
    \<and> generate_daily_remedies rashi w tone = Inr rem
    \<and> rem = take 2 cands
            @ (case map_of rashi_remedies rashi of Some r \<Rightarrow> [r] | None \<Rightarrow> [])
            @ (if tone = ascii ''challenging'' then [fallback_remedy] else [])
    \<and> 2 \<le> length rem \<and> length rem \<le> 4"
proof -
  from weekday_remedies_entry [OF assms(2,3)]
  obtain cands where c: "dict_getitem weekday_remedies w = Inr cands"
    "map_of weekday_remedies w = Some cands" "length cands = 3"
    by blast
  show ?thesis
    by (cases "map_of rashi_remedies rashi")
      (simp_all add: generate_daily_remedies_def c)
qed

theorem remedies_order_and_length_witness:
  "fst (rashi_base ! 0) \<in> set (map fst rashi_base) \<and> (0 :: int) \<le> 3 \<and> (3 :: int) \<le> 6
   \<and> (\<exists>rem. generate_daily_remedies (fst (rashi_base ! 0)) 3 (ascii ''challenging'') = Inr rem
        \<and> rem = take 2 (snd (weekday_remedies ! 3)) @ [snd (rashi_remedies ! 0)] @ [fallback_remedy]
        \<and> length rem = 4)"
proof -
  have w: "map_of weekday_remedies 3 = Some (snd (weekday_remedies ! 3))"
    by (simp add: weekday_remedies_def)
  from remedies_order_and_length [OF vrishabha_entry(1), of 3 "ascii ''challenging''"] w
    vrishabha_entry
  show ?thesis
    by auto
qed


text \<open>
  C8. For a recognized sign, a date and any score, the lucky number is the decimal form of
  the element at index \<open>(day + score) mod 9\<close> of the sequence 1..9, so it is one of the
  strings "1" to "9".
\<close>

theorem lucky_number_range:
  assumes "valid_date d" and "rashi \<in> set (map fst rashi_base)"
  shows "\<exists>le. generate_lucky_elements rashi d score = Inr le
    \<and> lucky_number le = str_int ([1..9] ! nat ((day d + score) mod 9))
    \<and> lucky_number le
        \<in> set (map (\<lambda>c. ascii [c]) ''123456789'')"
proof -
  obtain seed where seed: "date_seed d = Inr seed"
    using date_seed_total by blast
  have "nat ((day d + score) mod 9) < 9" by simp
  then have "nat ((day d + score) mod 9) \<in> set [0..<9]" by simp
  with lucky_number_strings
  have "str_int (base_numbers ! nat ((day d + score) mod 9))
      \<in> set (map (\<lambda>c. ascii [c]) ''123456789'')"
    unfolding list_all_iff by blast
  then show ?thesis
    by (simp add: generate_lucky_elements_eq [OF seed] base_numbers_upto [symmetric])
qed

theorem lucky_number_range_witness:
  "valid_date \<lparr>year = 2024, month = 1, day = 11\<rparr>
   \<and> default_rashi \<in> set (map fst rashi_base)
   \<and> (\<exists>le. generate_lucky_elements default_rashi \<lparr>year = 2024, month = 1, day = 11\<rparr> 4 = Inr le
        \<and> lucky_number le = ascii ''7'')
   \<and> (\<exists>le. generate_lucky_elements default_rashi \<lparr>year = 2024, month = 1, day = 11\<rparr> (- 20) = Inr le
        \<and> lucky_number le = ascii ''1'')"
proof -
  have "str_int ([1..9] ! nat ((11 + 4) mod 9)) = ascii ''7''"
    "str_int ([1..9] ! nat ((11 + (- 20)) mod 9)) = ascii ''1''"
    by code_simp+
  with lucky_number_range [OF D2024 default_rashi_recognized, of 4]
    lucky_number_range [OF D2024 default_rashi_recognized, of "- 20"]
    D2024 default_rashi_recognized
  show ?thesis by auto
qed


end
